theory Spec2Isabelle
  imports Complex_Main "HOL-Library.Char_ord"
begin

section \<open>The swim verdict engine of swim.today\<close>

text \<open>
  A shallow embedding of \<^verbatim>\<open>lib/swim_score.py\<close> and of the threshold tables of
  \<^verbatim>\<open>lib/constants.py\<close>.

  Conventions of the model:
  \<^item> a Python number is a rational \<^typ>\<open>rat\<close>. The domain of the model is the
    numbers within the double range: the finite floats, and the ints of magnitude at most
    the largest double (\<open>DBL_MAX\<close> below). There the arithmetic of the source raises
    nothing. An int beyond that range makes \<^verbatim>\<open>(value - prev_bound) / bucket_range\<close>
    raise \<^verbatim>\<open>OverflowError\<close> when it is converted to a float or divided; the model
    has no such path and describes the source on the readings within the range, which
    the theorems about all readings take as a hypothesis. A decimal literal of the source
    stands for the rational it denotes and arithmetic is exact, where the source rounds
    (the ratio of \<^verbatim>\<open>_classify\<close>, which its callers discard). The value
    \<^verbatim>\<open>float("inf")\<close> occurs only as an upper bound of a table and has a
    constructor of its own; NaN and infinite readings are outside the model;
  \<^item> a reading (the \<^verbatim>\<open>marine\<close> and \<^verbatim>\<open>weather\<close> dicts) is a map from
    keys to numbers; \<^verbatim>\<open>d.get(k)\<close> is the map applied to \<^verbatim>\<open>k\<close>, so a
    missing key and a key bound to \<^verbatim>\<open>None\<close> both read as \<open>None\<close>;
  \<^item> the \<^verbatim>\<open>factors\<close> dict is an association list in insertion order and each
    factor dict is a record;
  \<^item> \<^verbatim>\<open>SAFETY_FACTORS\<close> is a Python set of strings, whose iteration order is
    not fixed by the language. The loops \<^verbatim>\<open>for key in SAFETY_FACTORS\<close> take
    that order as an explicit list \<open>order\<close>;
  \<^item> an exception is a value \<open>Inl e\<close> of the result type.
\<close>

subsection \<open>Constants\<close>

datatype verdict = YES | MAYBE | NO

datatype bound = Fin rat | Infinity

type_synonym threshold = "bound \<times> string \<times> verdict option"

definition WATER_TEMP_LABELS :: "threshold list" where
  "WATER_TEMP_LABELS =
    [(Fin 10, ''Freezing'', None),
     (Fin 15, ''Very Cold'', None),
     (Fin 18, ''Cold'', None),
     (Fin 20, ''Cool'', None),
     (Fin 24, ''Mild'', None),
     (Fin 27, ''Comfortable'', None),
     (Fin 30, ''Warm'', None),
     (Fin 35, ''Very Warm'', None),
     (Infinity, ''Hot'', None)]"

definition WAVE_HEIGHT_LABELS :: "threshold list" where
  "WAVE_HEIGHT_LABELS =
    [(Fin 0.3, ''Glassy'', Some YES),
     (Fin 0.6, ''Calm'', Some YES),
     (Fin 1.0, ''Slight'', Some YES),
     (Fin 1.5, ''Moderate'', Some MAYBE),
     (Fin 2.0, ''Rough'', Some MAYBE),
     (Fin 3.0, ''Very Rough'', Some NO),
     (Infinity, ''Dangerous'', Some NO)]"

definition WIND_SPEED_LABELS :: "threshold list" where
  "WIND_SPEED_LABELS =
    [(Fin 10, ''Calm'', Some YES),
     (Fin 20, ''Light Breeze'', Some YES),
     (Fin 30, ''Moderate'', Some MAYBE),
     (Fin 40, ''Strong'', Some MAYBE),
     (Fin 50, ''Very Strong'', Some NO),
     (Infinity, ''Extreme'', Some NO)]"

definition UV_INDEX_LABELS :: "threshold list" where
  "UV_INDEX_LABELS =
    [(Fin 2, ''Low'', None),
     (Fin 5, ''Moderate'', None),
     (Fin 7, ''High'', None),
     (Fin 10, ''Very High'', None),
     (Infinity, ''Extreme'', None)]"

definition PRECIP_LABELS :: "threshold list" where
  "PRECIP_LABELS =
    [(Fin 0.1, ''None'', Some YES),
     (Fin 2.0, ''Light Rain'', Some YES),
     (Fin 5.0, ''Moderate Rain'', Some MAYBE),
     (Fin 10.0, ''Heavy Rain'', Some NO),
     (Infinity, ''Torrential'', Some NO)]"

text \<open>The three weather-code dicts, as association lists; a number is a key of a dict
  when it equals one of the integer keys.\<close>

definition DANGEROUS_WEATHER_CODES :: "(rat \<times> string) list" where
  "DANGEROUS_WEATHER_CODES =
    [(95, ''Thunderstorm''),
     (96, ''Thunderstorm with hail''),
     (99, ''Thunderstorm with heavy hail'')]"

definition WARNING_WEATHER_CODES :: "(rat \<times> string) list" where
  "WARNING_WEATHER_CODES =
    [(51, ''Light drizzle''),
     (53, ''Moderate drizzle''),
     (55, ''Dense drizzle''),
     (61, ''Slight rain''),
     (63, ''Moderate rain''),
     (65, ''Heavy rain''),
     (66, ''Freezing rain''),
     (67, ''Heavy freezing rain''),
     (71, ''Slight snow''),
     (73, ''Moderate snow''),
     (75, ''Heavy snow''),
     (77, ''Snow grains''),
     (80, ''Slight rain showers''),
     (81, ''Moderate rain showers''),
     (82, ''Violent rain showers''),
     (85, ''Slight snow showers''),
     (86, ''Heavy snow showers'')]"

definition WMO_WEATHER_DESCRIPTIONS :: "(rat \<times> string) list" where
  "WMO_WEATHER_DESCRIPTIONS =
    [(0, ''Clear sky''),
     (1, ''Mainly clear''),
     (2, ''Partly cloudy''),
     (3, ''Overcast''),
     (45, ''Foggy''),
     (48, ''Depositing rime fog''),
     (51, ''Light drizzle''),
     (53, ''Moderate drizzle''),
     (55, ''Dense drizzle''),
     (56, ''Light freezing drizzle''),
     (57, ''Dense freezing drizzle''),
     (61, ''Slight rain''),
     (63, ''Moderate rain''),
     (65, ''Heavy rain''),
     (66, ''Light freezing rain''),
     (67, ''Heavy freezing rain''),
     (71, ''Slight snow fall''),
     (73, ''Moderate snow fall''),
     (75, ''Heavy snow fall''),
     (77, ''Snow grains''),
     (80, ''Slight rain showers''),
     (81, ''Moderate rain showers''),
     (82, ''Violent rain showers''),
     (85, ''Slight snow showers''),
     (86, ''Heavy snow showers''),
     (95, ''Thunderstorm''),
     (96, ''Thunderstorm with slight hail''),
     (99, ''Thunderstorm with heavy hail'')]"

definition SAFETY_FACTORS :: "string set" where
  "SAFETY_FACTORS = {''wave_height'', ''wind_speed'', ''precipitation'', ''weather_code''}"

subsection \<open>Data\<close>

datatype error = IndexError

type_synonym reading = "string \<rightharpoonup> rat"

record factor =
  "value" :: "rat option"
  unit :: string
  label :: string
  verdict :: "verdict option"
  bar :: int

record evaluation =
  verdict :: verdict
  factors :: "(string \<times> factor) list"
  tips :: "string list"
  summary :: string

subsection \<open>Python primitives\<close>

text \<open>\<^verbatim>\<open>int(x)\<close> truncates towards zero.\<close>

definition py_int :: "rat \<Rightarrow> int" where
  "py_int x = (if x < 0 then \<lceil>x\<rceil> else \<lfloor>x\<rfloor>)"

text \<open>\<^verbatim>\<open>str.lower()\<close> on the ASCII labels of the tables.\<close>

definition lower_char :: "char \<Rightarrow> char" where
  "lower_char c =
    (if CHR ''A'' \<le> c \<and> c \<le> CHR ''Z'' then char_of (of_char c + (32::nat)) else c)"

definition lower :: "string \<Rightarrow> string" where
  "lower s = map lower_char s"

text \<open>\<^verbatim>\<open>sep.join(xs)\<close>.\<close>

fun join :: "string \<Rightarrow> string list \<Rightarrow> string" where
  "join sep [] = []"
| "join sep [x] = x"
| "join sep (x # y # ys) = x @ sep @ join sep (y # ys)"

text \<open>\<^verbatim>\<open>d.get(k, default)\<close> and \<^verbatim>\<open>k in d\<close> on an association list.\<close>

definition get_default :: "('k \<times> 'v) list \<Rightarrow> 'k \<Rightarrow> 'v \<Rightarrow> 'v" where
  "get_default d k dflt = (case map_of d k of None \<Rightarrow> dflt | Some v \<Rightarrow> v)"

definition has_key :: "('k \<times> 'v) list \<Rightarrow> 'k \<Rightarrow> bool" where
  "has_key d k = (map_of d k \<noteq> None)"

text \<open>\<^verbatim>\<open>d.get(k, 0) or 0\<close>: an absent value and the number zero both give 0.\<close>

definition get_or_zero :: "reading \<Rightarrow> string \<Rightarrow> rat" where
  "get_or_zero d k = (case d k of None \<Rightarrow> 0 | Some v \<Rightarrow> if v = 0 then 0 else v)"

definition bind_result :: "error + 'a \<Rightarrow> ('a \<Rightarrow> error + 'b) \<Rightarrow> error + 'b" where
  "bind_result r f = (case r of Inl e \<Rightarrow> Inl e | Inr x \<Rightarrow> f x)"

subsection \<open>The classifier\<close>

text \<open>The clamped position of the value inside its bucket; \<open>bucket_range\<close> is 1 for
  the bucket that ends at infinity. The quotient is exact here; the source computes it in
  Python numbers, rounds it, and raises \<^verbatim>\<open>OverflowError\<close> when an int operand
  beyond the double range is converted or divided. On a value within the range and the
  tables of this repository the subtraction and the division raise nothing.\<close>

definition ratio_in :: "rat \<Rightarrow> rat \<Rightarrow> rat \<Rightarrow> rat" where
  "ratio_in v prev_bound bucket_range =
    (if bucket_range > 0 then min 1 (max 0 ((v - prev_bound) / bucket_range)) else 0)"

text \<open>The \<^verbatim>\<open>for\<close> loop of \<^verbatim>\<open>_classify\<close>: \<open>None\<close> when the loop ends without
  returning. A number is below \<^verbatim>\<open>float("inf")\<close>, so the loop returns at an
  infinite bound and \<open>prev_bound\<close> is always finite. The only error of the model is the
  \<^verbatim>\<open>IndexError\<close> of an empty table: the \<^verbatim>\<open>OverflowError\<close> of a value
  beyond the double range lies outside its domain.\<close>

fun classify_loop ::
  "rat \<Rightarrow> rat \<Rightarrow> threshold list \<Rightarrow> (string \<times> verdict option \<times> rat) option" where
  "classify_loop v prev_bound [] = None"
| "classify_loop v prev_bound ((Infinity, lbl, vd) # thresholds) =
     Some (lbl, vd, ratio_in v prev_bound 1)"
| "classify_loop v prev_bound ((Fin upper, lbl, vd) # thresholds) =
     (if v < upper then Some (lbl, vd, ratio_in v prev_bound (upper - prev_bound))
      else classify_loop v upper thresholds)"

definition classify ::
  "rat option \<Rightarrow> threshold list \<Rightarrow> error + (string \<times> verdict option \<times> rat)" where
  "classify val thresholds =
    (case val of
       None \<Rightarrow> Inr (''Unknown'', None, 0)
     | Some v \<Rightarrow>
         (case classify_loop v 0 thresholds of
            Some r \<Rightarrow> Inr r
          | None \<Rightarrow>
              if thresholds = [] then Inl IndexError
              else Inr (fst (snd (last thresholds)), snd (snd (last thresholds)), 1)))"

subsection \<open>Bar fills\<close>

definition temp_bar :: "rat \<Rightarrow> int" where
  "temp_bar temp_c =
    (if temp_c < 10 then 1
     else if temp_c < 15 then 2
     else if temp_c < 18 then 3
     else if temp_c < 20 then 4
     else if temp_c < 22 then 5
     else if temp_c < 24 then 6
     else if temp_c < 26 then 7
     else if temp_c < 28 then 8
     else if temp_c < 30 then 9
     else 10)"

definition wave_bar :: "rat \<Rightarrow> int" where
  "wave_bar wave_m =
    (if wave_m < 0.2 then 1
     else if wave_m < 0.4 then 2
     else if wave_m < 0.6 then 3
     else if wave_m < 0.8 then 4
     else if wave_m < 1.0 then 5
     else if wave_m < 1.5 then 6
     else if wave_m < 2.0 then 7
     else if wave_m < 2.5 then 8
     else if wave_m < 3.0 then 9
     else 10)"

definition wind_bar :: "rat \<Rightarrow> int" where
  "wind_bar wind_kmh = min 10 (max 1 (py_int (wind_kmh / 5)))"

subsection \<open>Overall verdict and summary\<close>

text \<open>The counting loop of \<^verbatim>\<open>_compute_verdict\<close> over \<^verbatim>\<open>factors.items()\<close>.\<close>

fun count_verdicts :: "(string \<times> factor) list \<Rightarrow> nat \<Rightarrow> nat \<Rightarrow> nat \<times> nat" where
  "count_verdicts [] no_count maybe_count = (no_count, maybe_count)"
| "count_verdicts ((key, f) # items) no_count maybe_count =
     (if key \<notin> SAFETY_FACTORS then count_verdicts items no_count maybe_count
      else if factor.verdict f = Some NO then count_verdicts items (no_count + 1) maybe_count
      else if factor.verdict f = Some MAYBE then count_verdicts items no_count (maybe_count + 1)
      else count_verdicts items no_count maybe_count)"

definition compute_verdict :: "(string \<times> factor) list \<Rightarrow> verdict" where
  "compute_verdict fs =
    (case count_verdicts fs 0 0 of
       (no_count, maybe_count) \<Rightarrow>
         if no_count \<ge> 1 then NO
         else if maybe_count \<ge> 2 then NO
         else if maybe_count = 1 then MAYBE
         else YES)"

definition factor_name :: "string \<Rightarrow> string" where
  "factor_name key =
    get_default
      [(''wave_height'', ''waves''),
       (''wind_speed'', ''wind''),
       (''precipitation'', ''rain''),
       (''weather_code'', ''weather'')] key key"

text \<open>The two loops of \<^verbatim>\<open>_generate_summary\<close> over the safety keys. A key without
  a factor reads as the empty dict, whose verdict is \<^verbatim>\<open>None\<close>.\<close>

fun issues_loop :: "(string \<times> factor) list \<Rightarrow> string list \<Rightarrow> string list \<Rightarrow> string list" where
  "issues_loop fs [] issues = issues"
| "issues_loop fs (key # keys) issues =
     (case map_of fs key of
        None \<Rightarrow> issues_loop fs keys issues
      | Some f \<Rightarrow>
          if factor.verdict f = Some MAYBE
          then issues_loop fs keys (issues @ [lower (label f) @ '' '' @ factor_name key])
          else issues_loop fs keys issues)"

fun dangers_loop :: "(string \<times> factor) list \<Rightarrow> string list \<Rightarrow> string list \<Rightarrow> string list" where
  "dangers_loop fs [] dangers = dangers"
| "dangers_loop fs (key # keys) dangers =
     (case map_of fs key of
        None \<Rightarrow> dangers_loop fs keys dangers
      | Some f \<Rightarrow>
          if factor.verdict f = Some NO \<or> factor.verdict f = Some MAYBE
          then dangers_loop fs keys (dangers @ [lower (label f) @ '' '' @ factor_name key])
          else dangers_loop fs keys dangers)"

definition generate_summary :: "string list \<Rightarrow> verdict \<Rightarrow> (string \<times> factor) list \<Rightarrow> string" where
  "generate_summary order v fs =
    (if v = YES then ''Beach is open. Go swim!''
     else if v = MAYBE then
       (let issues = issues_loop fs order [] in
        if issues \<noteq> [] then ''Swim with caution: '' @ join '', '' issues @ ''.''
        else ''Conditions are mixed. Swim with caution.'')
     else
       (let dangers = dangers_loop fs order [] in
        if dangers \<noteq> [] then ''Beach closed: '' @ join '', '' (take 2 dangers) @ ''.''
        else ''Not safe to swim.''))"

subsection \<open>The evaluator\<close>

definition evaluate_conditions :: "string list \<Rightarrow> reading \<Rightarrow> reading \<Rightarrow> error + evaluation" where
  "evaluate_conditions order marine weather =
    (let fs = [];
         tps = [];
         water_temp = marine ''sea_surface_temp''
     in bind_result (classify water_temp WATER_TEMP_LABELS) (\<lambda>(wt_label, wt_verdict, wt_ratio).
    (let fs = fs @ [(''water_temp'',
           \<lparr>value = water_temp, unit = ''C'', label = wt_label, factor.verdict = None,
            bar = (case water_temp of None \<Rightarrow> 0 | Some t \<Rightarrow> temp_bar t)\<rparr>)];
         tps = tps @
           (case water_temp of
              None \<Rightarrow> []
            | Some t \<Rightarrow>
                if t < 15 then [''Water is very cold. Consider a wetsuit.'']
                else if t < 18 then [''Water is cold. A wetsuit may help.'']
                else []);
         wave_height = marine ''wave_height''
     in bind_result (classify wave_height WAVE_HEIGHT_LABELS) (\<lambda>(wh_label, wh_verdict, wh_ratio).
    (let fs = fs @ [(''wave_height'',
           \<lparr>value = wave_height, unit = ''m'', label = wh_label, factor.verdict = wh_verdict,
            bar = (case wave_height of None \<Rightarrow> 0 | Some h \<Rightarrow> wave_bar h)\<rparr>)];
         tps = tps @
           (case wave_height of
              None \<Rightarrow> []
            | Some h \<Rightarrow>
                if h \<ge> 2.5 then [''Dangerous waves. Red flag conditions.'']
                else if h \<ge> 1.5 then [''Rough waves. Experienced swimmers only.'']
                else []);
         wind_speed = weather ''wind_speed''
     in bind_result (classify wind_speed WIND_SPEED_LABELS) (\<lambda>(ws_label, ws_verdict, ws_ratio).
    (let fs = fs @ [(''wind_speed'',
           \<lparr>value = wind_speed, unit = ''km/h'', label = ws_label, factor.verdict = ws_verdict,
            bar = (case wind_speed of None \<Rightarrow> 0 | Some s \<Rightarrow> wind_bar s)\<rparr>)];
         tps = tps @
           (case wind_speed of
              None \<Rightarrow> []
            | Some s \<Rightarrow>
                if s \<ge> 40 then [''Strong winds create dangerous rip currents.''] else []);
         uv_index = weather ''uv_index''
     in bind_result (classify uv_index UV_INDEX_LABELS) (\<lambda>(uv_label, uv_verdict, uv_ratio).
    (let fs = fs @ [(''uv_index'',
           \<lparr>value = uv_index, unit = '''', label = uv_label, factor.verdict = None,
            bar = (case uv_index of None \<Rightarrow> 0 | Some u \<Rightarrow> min 10 (py_int u))\<rparr>)];
         tps = tps @
           (case uv_index of
              None \<Rightarrow> []
            | Some u \<Rightarrow>
                if u \<ge> 8 then [''Very high UV. Wear sunscreen SPF 50+ and reapply often.'']
                else if u \<ge> 6 then [''High UV. Wear sunscreen.'']
                else if u \<ge> 3 then [''Moderate UV. Sunscreen recommended.'']
                else []);
         precip = get_or_zero weather ''precipitation''
     in bind_result (classify (Some precip) PRECIP_LABELS) (\<lambda>(pr_label, pr_verdict, pr_ratio).
    (let fs = fs @ [(''precipitation'',
           \<lparr>value = Some precip, unit = ''mm'', label = pr_label, factor.verdict = pr_verdict,
            bar = min 10 (py_int precip)\<rparr>)];
         weather_code = get_or_zero weather ''weather_code'';
         wc_desc = get_default WMO_WEATHER_DESCRIPTIONS weather_code ''Unknown'';
         (wc_verdict, tps) =
           (if has_key DANGEROUS_WEATHER_CODES weather_code
            then (NO, tps @ [''Dangerous weather: '' @ wc_desc @ ''. Beach closed.''])
            else if has_key WARNING_WEATHER_CODES weather_code then (MAYBE, tps)
            else (YES, tps));
         fs = fs @ [(''weather_code'',
           \<lparr>value = Some weather_code, unit = '''', label = wc_desc,
            factor.verdict = Some wc_verdict, bar = 0\<rparr>)];
         v = compute_verdict fs;
         s = generate_summary order v fs
     in Inr \<lparr>verdict = v, factors = fs, tips = tps, summary = s\<rparr>)))))))))))"

subsection \<open>Notions of the specification\<close>

text \<open>The definitions of this subsection are not code of the repository: they phrase
  what the specification says, to be compared with the functions above.\<close>

text \<open>The domain of the model. \<open>DBL_MAX\<close> is the largest finite double,
  \<^verbatim>\<open>(2 - 2**-52) * 2**1023\<close>. The readings that the evaluator does arithmetic on are
  the water temperature, the wave height, the wind speed, the UV index and the
  precipitation; the weather code is only looked up. A table is within the range when its
  finite bounds lie between 0, the lower bound of the first bucket, and \<open>DBL_MAX\<close>:
  then no difference of a value and a bound leaves the range.\<close>

definition DBL_MAX :: rat where
  "DBL_MAX = (2 ^ 53 - 1) * 2 ^ 971"

definition in_double_range :: "rat \<Rightarrow> bool" where
  "in_double_range v = (- DBL_MAX \<le> v \<and> v \<le> DBL_MAX)"

definition present_in_range :: "rat option \<Rightarrow> bool" where
  "present_in_range x = (case x of None \<Rightarrow> True | Some v \<Rightarrow> in_double_range v)"

definition readings_in_range :: "reading \<Rightarrow> reading \<Rightarrow> bool" where
  "readings_in_range marine weather =
    (present_in_range (marine ''sea_surface_temp'') \<and>
     present_in_range (marine ''wave_height'') \<and>
     present_in_range (weather ''wind_speed'') \<and>
     present_in_range (weather ''uv_index'') \<and>
     present_in_range (weather ''precipitation''))"

fun bound_in_range :: "bound \<Rightarrow> bool" where
  "bound_in_range (Fin upper) = (0 \<le> upper \<and> upper \<le> DBL_MAX)"
| "bound_in_range Infinity = True"

definition table_in_range :: "threshold list \<Rightarrow> bool" where
  "table_in_range thresholds = list_all (\<lambda>(upper, lbl, vd). bound_in_range upper) thresholds"

text \<open>One iteration order of \<^verbatim>\<open>SAFETY_FACTORS\<close>: the order in which the set
  literal lists its elements. It is used for concrete evaluations only.\<close>

definition written_order :: "string list" where
  "written_order = [''wave_height'', ''wind_speed'', ''precipitation'', ''weather_code'']"

text \<open>Reading one field of one factor of a result: \<^verbatim>\<open>factors[key]["verdict"]\<close>,
  \<^verbatim>\<open>factors[key]["label"]\<close> and \<^verbatim>\<open>factors[key]["bar"]\<close>; \<open>None\<close> on the
  outside when the key has no factor.\<close>

definition get_verdict :: "(string \<times> factor) list \<Rightarrow> string \<Rightarrow> verdict option" where
  "get_verdict fs key = (case map_of fs key of None \<Rightarrow> None | Some f \<Rightarrow> factor.verdict f)"

definition get_label :: "(string \<times> factor) list \<Rightarrow> string \<Rightarrow> string option" where
  "get_label fs key = map_option label (map_of fs key)"

definition get_bar :: "(string \<times> factor) list \<Rightarrow> string \<Rightarrow> int option" where
  "get_bar fs key = map_option bar (map_of fs key)"

text \<open>The aggregation rule in the words of the specification, on the list of the safety
  factors' verdicts.\<close>

definition aggregate :: "verdict option list \<Rightarrow> verdict" where
  "aggregate vs =
    (if Some NO \<in> set vs then NO
     else if 2 \<le> count_list vs (Some MAYBE) then NO
     else if count_list vs (Some MAYBE) = 1 then MAYBE
     else YES)"

text \<open>An upper bound strictly exceeds a value; a table is strictly ascending.\<close>

fun exceeds :: "bound \<Rightarrow> rat \<Rightarrow> bool" where
  "exceeds (Fin upper) v = (v < upper)"
| "exceeds Infinity v = True"

fun bound_less :: "bound \<Rightarrow> bound \<Rightarrow> bool" where
  "bound_less (Fin a) (Fin b) = (a < b)"
| "bound_less (Fin a) Infinity = True"
| "bound_less Infinity b = False"

definition ascending :: "threshold list \<Rightarrow> bool" where
  "ascending thresholds = sorted_wrt bound_less (map fst thresholds)"

text \<open>The phrases \<open>{label-lowercased} {factor-name}\<close> of the safety factors whose verdict
  is one of \<open>vs\<close>, in the iteration order.\<close>

definition described :: "string list \<Rightarrow> (string \<times> factor) list \<Rightarrow> verdict list \<Rightarrow> string list" where
  "described order fs vs =
    concat (map (\<lambda>key.
      case map_of fs key of
        None \<Rightarrow> []
      | Some f \<Rightarrow>
          if factor.verdict f \<in> Some ` set vs
          then [lower (label f) @ '' '' @ factor_name key] else []) order)"

text \<open>The advisory tips, one function per measurement, with the thresholds of the
  specification.\<close>

definition water_temp_tip :: "rat option \<Rightarrow> string list" where
  "water_temp_tip t =
    (if t = None then []
     else if the t < 15 then [''Water is very cold. Consider a wetsuit.'']
     else if the t < 18 then [''Water is cold. A wetsuit may help.'']
     else [])"

definition wave_tip :: "rat option \<Rightarrow> string list" where
  "wave_tip h =
    (if h = None then []
     else if 2.5 \<le> the h then [''Dangerous waves. Red flag conditions.'']
     else if 1.5 \<le> the h then [''Rough waves. Experienced swimmers only.'']
     else [])"

definition wind_tip :: "rat option \<Rightarrow> string list" where
  "wind_tip s =
    (if s = None then []
     else if 40 \<le> the s then [''Strong winds create dangerous rip currents.'']
     else [])"

definition uv_tip :: "rat option \<Rightarrow> string list" where
  "uv_tip u =
    (if u = None then []
     else if 8 \<le> the u then [''Very high UV. Wear sunscreen SPF 50+ and reapply often.'']
     else if 6 \<le> the u then [''High UV. Wear sunscreen.'']
     else if 3 \<le> the u then [''Moderate UV. Sunscreen recommended.'']
     else [])"

definition weather_tip :: "rat \<Rightarrow> string list" where
  "weather_tip code =
    (if code \<in> fst ` set DANGEROUS_WEATHER_CODES
     then [''Dangerous weather: '' @ get_default WMO_WEATHER_DESCRIPTIONS code ''Unknown'' @
           ''. Beach closed.'']
     else [])"

section \<open>Properties\<close>

subsection \<open>The classifier\<close>

lemma classify_loop_find:
  "find (\<lambda>(upper, lbl, vd). exceeds upper v) ts = Some (upper, lbl, vd)
    \<Longrightarrow> \<exists>ratio. classify_loop v prev ts = Some (lbl, vd, ratio)"
proof (induction v prev ts rule: classify_loop.induct)
  case (1 v prev_bound)
  then show ?case by simp
next
  case (2 v prev_bound lbl' vd' thresholds)
  then show ?case by simp
next
  case (3 v prev_bound u lbl' vd' thresholds)
  then show ?case by (cases "v < u") auto
qed

lemma exceeds_bound_less:
  "bound_less b (Fin v) \<Longrightarrow> \<not> exceeds b v"
  by (cases b) simp_all

lemma find_boundary:
  "sorted_wrt bound_less (map fst ts) \<Longrightarrow> Suc i < length ts \<Longrightarrow> fst (ts ! i) = Fin v
    \<Longrightarrow> find (\<lambda>(upper, lbl, vd). exceeds upper v) ts = Some (ts ! Suc i)"
proof (induction ts arbitrary: i)
  case Nil
  then show ?case by simp
next
  case (Cons t ts)
  obtain b l d where t: "t = (b, l, d)" by (cases t)
  show ?case
  proof (cases i)
    case 0
    with Cons.prems t have b: "b = Fin v" by simp
    from Cons.prems 0 obtain t' ts' where ts: "ts = t' # ts'" by (cases ts) auto
    obtain b' l' d' where t': "t' = (b', l', d')" by (cases t')
    from Cons.prems(1) ts t t' b have "bound_less (Fin v) b'" by simp
    then have "exceeds b' v" by (cases b') simp_all
    with 0 t b ts t' show ?thesis by simp
  next
    case (Suc j)
    with Cons.prems have j: "Suc j < length ts" "fst (ts ! j) = Fin v" by simp_all
    then have "ts ! j \<in> set ts" by simp
    with Cons.prems(1) t j(2) have "bound_less b (Fin v)" by force
    then have "\<not> exceeds b v" by (rule exceeds_bound_less)
    moreover from Cons.prems(1) have "sorted_wrt bound_less (map fst ts)" by simp
    ultimately show ?thesis using Cons.IH [OF _ j] Suc t by simp
  qed
qed

lemma DBL_MAX_ge: "1000 \<le> DBL_MAX"
  by (simp add: DBL_MAX_def)

lemma in_double_range_small: "- 1000 \<le> v \<Longrightarrow> v \<le> 1000 \<Longrightarrow> in_double_range v"
  using DBL_MAX_ge by (simp add: in_double_range_def)

lemma find_exceeds_last:
  "thresholds \<noteq> [] \<Longrightarrow> fst (last thresholds) = Infinity
    \<Longrightarrow> \<exists>e. find (\<lambda>(upper, lbl, vd). exceeds upper v) thresholds = Some e"
  by (induction thresholds) (auto split: if_splits)

text \<open>
  Claim C2. For every present value and every threshold table within the double range
  (where the source raises nothing), classification returns the
  label and the verdict of the first entry whose upper bound strictly exceeds the value;
  a table that ends at infinity has such an entry.
  Hence, in a strictly ascending table, a value equal to the upper bound of entry \<open>i\<close>
  is classified by entry \<open>i + 1\<close>; a wave height of exactly 1.5 is "Rough" with verdict
  MAYBE.
\<close>

theorem classify_first_exceeding:
  assumes "in_double_range v" and "table_in_range thresholds"
  shows "(find (\<lambda>(upper, lbl, vd). exceeds upper v) thresholds = Some (upper, lbl, vd)
      \<longrightarrow> (\<exists>ratio. classify (Some v) thresholds = Inr (lbl, vd, ratio))) \<and>
   (thresholds \<noteq> [] \<and> fst (last thresholds) = Infinity
      \<longrightarrow> (\<exists>e. find (\<lambda>(upper, lbl, vd). exceeds upper v) thresholds = Some e)) \<and>
   (ascending thresholds \<and> Suc i < length thresholds \<and> fst (thresholds ! i) = Fin v
      \<longrightarrow> (\<exists>ratio. classify (Some v) thresholds =
              Inr (fst (snd (thresholds ! Suc i)), snd (snd (thresholds ! Suc i)), ratio))) \<and>
   (\<exists>ratio. classify (Some 1.5) WAVE_HEIGHT_LABELS = Inr (''Rough'', Some MAYBE, ratio))"
proof (intro conjI impI)
  assume "find (\<lambda>(upper, lbl, vd). exceeds upper v) thresholds = Some (upper, lbl, vd)"
  from classify_loop_find [OF this, of 0]
  show "\<exists>ratio. classify (Some v) thresholds = Inr (lbl, vd, ratio)"
    by (auto simp: classify_def)
next
  assume "thresholds \<noteq> [] \<and> fst (last thresholds) = Infinity"
  then show "\<exists>e. find (\<lambda>(upper, lbl, vd). exceeds upper v) thresholds = Some e"
    by (elim conjE) (rule find_exceeds_last)
next
  assume a: "ascending thresholds \<and> Suc i < length thresholds \<and> fst (thresholds ! i) = Fin v"
  obtain b l d where n: "thresholds ! Suc i = (b, l, d)" by (cases "thresholds ! Suc i")
  from a have "find (\<lambda>(upper, lbl, vd). exceeds upper v) thresholds = Some (b, l, d)"
    using find_boundary [of thresholds i v] n by (simp add: ascending_def)
  from classify_loop_find [OF this, of 0] n
  show "\<exists>ratio. classify (Some v) thresholds =
          Inr (fst (snd (thresholds ! Suc i)), snd (snd (thresholds ! Suc i)), ratio)"
    by (auto simp: classify_def)
next
  show "\<exists>ratio. classify (Some 1.5) WAVE_HEIGHT_LABELS = Inr (''Rough'', Some MAYBE, ratio)"
    by (simp add: classify_def WAVE_HEIGHT_LABELS_def)
qed

theorem classify_first_exceeding_witness:
  "in_double_range 1.5 \<and> table_in_range WAVE_HEIGHT_LABELS \<and>
   find (\<lambda>(upper, lbl, vd). exceeds upper 1.5) WAVE_HEIGHT_LABELS = Some (Fin 2.0, ''Rough'', Some MAYBE) \<and>
   WAVE_HEIGHT_LABELS \<noteq> [] \<and> fst (last WAVE_HEIGHT_LABELS) = Infinity \<and>
   ascending WAVE_HEIGHT_LABELS \<and> Suc 3 < length WAVE_HEIGHT_LABELS \<and>
   WAVE_HEIGHT_LABELS ! 3 = (Fin 1.5, ''Moderate'', Some MAYBE) \<and>
   WAVE_HEIGHT_LABELS ! Suc 3 = (Fin 2.0, ''Rough'', Some MAYBE) \<and>
   (\<exists>ratio. classify (Some 1.5) WAVE_HEIGHT_LABELS = Inr (''Rough'', Some MAYBE, ratio))"
proof -
  have f: "find (\<lambda>(upper, lbl, vd). exceeds upper 1.5) WAVE_HEIGHT_LABELS
            = Some (Fin 2.0, ''Rough'', Some MAYBE)"
    by (simp add: WAVE_HEIGHT_LABELS_def)
  have a: "ascending WAVE_HEIGHT_LABELS"
    by (simp add: ascending_def WAVE_HEIGHT_LABELS_def)
  have l: "WAVE_HEIGHT_LABELS \<noteq> []" "fst (last WAVE_HEIGHT_LABELS) = Infinity"
    by (simp_all add: WAVE_HEIGHT_LABELS_def)
  have n: "Suc 3 < length WAVE_HEIGHT_LABELS"
    "WAVE_HEIGHT_LABELS ! 3 = (Fin 1.5, ''Moderate'', Some MAYBE)"
    "WAVE_HEIGHT_LABELS ! Suc 3 = (Fin 2.0, ''Rough'', Some MAYBE)"
    by (simp_all add: WAVE_HEIGHT_LABELS_def)
  have d: "in_double_range 1.5"
    by (rule in_double_range_small) simp_all
  have t: "table_in_range WAVE_HEIGHT_LABELS"
    using DBL_MAX_ge by (simp add: table_in_range_def WAVE_HEIGHT_LABELS_def)
  from classify_first_exceeding [OF d t, where upper = "Fin 2.0" and lbl = "''Rough''"
      and vd = "Some MAYBE" and i = 3]
    f l a n d t
  show ?thesis by simp
qed


subsection \<open>The evaluator\<close>

lemma classify_water: "\<exists>l r. classify v WATER_TEMP_LABELS = Inr (l, None, r) \<and> (v = None \<longrightarrow> l = ''Unknown'')"
  by (cases v) (simp_all add: classify_def WATER_TEMP_LABELS_def)

lemma classify_uv: "\<exists>l r. classify v UV_INDEX_LABELS = Inr (l, None, r) \<and> (v = None \<longrightarrow> l = ''Unknown'')"
  by (cases v) (simp_all add: classify_def UV_INDEX_LABELS_def)

lemma classify_wave:
  "\<exists>l r. classify v WAVE_HEIGHT_LABELS =
      Inr (l, (case v of None \<Rightarrow> None
               | Some h \<Rightarrow> Some (if h < 1 then YES else if h < 2 then MAYBE else NO)), r)
     \<and> (v = None \<longrightarrow> l = ''Unknown'')"
  by (cases v) (simp_all add: classify_def WAVE_HEIGHT_LABELS_def)

lemma classify_wind:
  "\<exists>l r. classify v WIND_SPEED_LABELS =
      Inr (l, (case v of None \<Rightarrow> None
               | Some s \<Rightarrow> Some (if s < 20 then YES else if s < 40 then MAYBE else NO)), r)
     \<and> (v = None \<longrightarrow> l = ''Unknown'')"
  by (cases v) (simp_all add: classify_def WIND_SPEED_LABELS_def)

lemma classify_precip:
  "\<exists>l r. classify (Some p) PRECIP_LABELS =
      Inr (l, Some (if p < 2 then YES else if p < 5 then MAYBE else NO), r)
     \<and> (p = 0 \<longrightarrow> l = ''None'')"
  by (simp add: classify_def PRECIP_LABELS_def)


lemma count_verdicts_eq:
  "count_verdicts fs n m =
    (n + length (filter (\<lambda>(key, f). key \<in> SAFETY_FACTORS \<and> factor.verdict f = Some NO) fs),
     m + length (filter (\<lambda>(key, f). key \<in> SAFETY_FACTORS \<and> factor.verdict f = Some MAYBE) fs))"
  by (induction fs n m rule: count_verdicts.induct) simp_all

lemma count_list_length_filter: "count_list xs y = length (filter (\<lambda>x. x = y) xs)"
  by (induction xs) simp_all

lemma compute_verdict_aggregate:
  "compute_verdict fs =
     aggregate (map (\<lambda>(key, f). factor.verdict f) (filter (\<lambda>(key, f). key \<in> SAFETY_FACTORS) fs))"
proof -
  let ?vs = "map (\<lambda>(key, f). factor.verdict f) (filter (\<lambda>(key, f). key \<in> SAFETY_FACTORS) fs)"
  have len: "length (filter (\<lambda>(key, f). key \<in> SAFETY_FACTORS \<and> factor.verdict f = Some v) fs)
      = count_list ?vs (Some v)" for v
    by (induction fs) (auto simp: count_list_length_filter)
  have mem: "Some NO \<in> set ?vs \<longleftrightarrow> 1 \<le> count_list ?vs (Some NO)"
    using count_list_0_iff [of ?vs "Some NO"] by arith
  have "compute_verdict fs =
      (if 1 \<le> count_list ?vs (Some NO) then NO
       else if 2 \<le> count_list ?vs (Some MAYBE) then NO
       else if count_list ?vs (Some MAYBE) = 1 then MAYBE
       else YES)"
    by (simp only: compute_verdict_def count_verdicts_eq len prod.case add_0)
  also have "\<dots> = aggregate ?vs"
    by (simp only: aggregate_def mem)
  finally show ?thesis .
qed

lemma has_key_iff: "has_key d k \<longleftrightarrow> k \<in> fst ` set d"
  by (simp add: has_key_def map_of_eq_None_iff)

lemma water_temp_tip_eq:
  "water_temp_tip v =
    (case v of
       None \<Rightarrow> []
     | Some t \<Rightarrow>
         if t < 15 then [''Water is very cold. Consider a wetsuit.'']
         else if t < 18 then [''Water is cold. A wetsuit may help.'']
         else [])"
  by (cases v) (simp_all add: water_temp_tip_def)

lemma wave_tip_eq:
  "wave_tip v =
    (case v of
       None \<Rightarrow> []
     | Some h \<Rightarrow>
         if h \<ge> 2.5 then [''Dangerous waves. Red flag conditions.'']
         else if h \<ge> 1.5 then [''Rough waves. Experienced swimmers only.'']
         else [])"
  by (cases v) (simp_all add: wave_tip_def)

lemma wind_tip_eq:
  "wind_tip v =
    (case v of
       None \<Rightarrow> []
     | Some s \<Rightarrow>
         if s \<ge> 40 then [''Strong winds create dangerous rip currents.''] else [])"
  by (cases v) (simp_all add: wind_tip_def)

lemma uv_tip_eq:
  "uv_tip v =
    (case v of
       None \<Rightarrow> []
     | Some u \<Rightarrow>
         if u \<ge> 8 then [''Very high UV. Wear sunscreen SPF 50+ and reapply often.'']
         else if u \<ge> 6 then [''High UV. Wear sunscreen.'']
         else if u \<ge> 3 then [''Moderate UV. Sunscreen recommended.'']
         else [])"
  by (cases v) (simp_all add: uv_tip_def)

lemma weather_tip_eq:
  "weather_tip code =
    (if has_key DANGEROUS_WEATHER_CODES code
     then [''Dangerous weather: '' @ get_default WMO_WEATHER_DESCRIPTIONS code ''Unknown'' @
           ''. Beach closed.'']
     else [])"
  by (simp only: weather_tip_def has_key_iff)

lemma evaluate_conditions_facts:
  obtains r where
    "evaluate_conditions order marine weather = Inr r"
    "evaluation.verdict r = compute_verdict (factors r)"
    "summary r = generate_summary order (evaluation.verdict r) (factors r)"
    "map fst (factors r) =
       [''water_temp'', ''wave_height'', ''wind_speed'', ''uv_index'', ''precipitation'',
        ''weather_code'']"
    "map (\<lambda>(key, f). factor.verdict f) (filter (\<lambda>(key, f). key \<in> SAFETY_FACTORS) (factors r))
       = map (get_verdict (factors r))
           [''wave_height'', ''wind_speed'', ''precipitation'', ''weather_code'']"
    "get_verdict (factors r) ''water_temp'' = None"
    "get_verdict (factors r) ''wave_height'' =
       (case marine ''wave_height'' of None \<Rightarrow> None
        | Some h \<Rightarrow> Some (if h < 1 then YES else if h < 2 then MAYBE else NO))"
    "get_verdict (factors r) ''wind_speed'' =
       (case weather ''wind_speed'' of None \<Rightarrow> None
        | Some s \<Rightarrow> Some (if s < 20 then YES else if s < 40 then MAYBE else NO))"
    "get_verdict (factors r) ''uv_index'' = None"
    "get_verdict (factors r) ''precipitation'' =
       Some (if get_or_zero weather ''precipitation'' < 2 then YES
             else if get_or_zero weather ''precipitation'' < 5 then MAYBE else NO)"
    "get_verdict (factors r) ''weather_code'' =
       Some (if get_or_zero weather ''weather_code'' \<in> fst ` set DANGEROUS_WEATHER_CODES then NO
             else if get_or_zero weather ''weather_code'' \<in> fst ` set WARNING_WEATHER_CODES
             then MAYBE else YES)"
    "marine ''sea_surface_temp'' = None \<longrightarrow> get_label (factors r) ''water_temp'' = Some ''Unknown''"
    "marine ''wave_height'' = None \<longrightarrow> get_label (factors r) ''wave_height'' = Some ''Unknown''"
    "weather ''wind_speed'' = None \<longrightarrow> get_label (factors r) ''wind_speed'' = Some ''Unknown''"
    "weather ''uv_index'' = None \<longrightarrow> get_label (factors r) ''uv_index'' = Some ''Unknown''"
    "get_or_zero weather ''precipitation'' = 0 \<longrightarrow>
       get_label (factors r) ''precipitation'' = Some ''None''"
    "get_label (factors r) ''weather_code'' =
       Some (get_default WMO_WEATHER_DESCRIPTIONS (get_or_zero weather ''weather_code'') ''Unknown'')"
    "tips r = water_temp_tip (marine ''sea_surface_temp'') @ wave_tip (marine ''wave_height'') @
       wind_tip (weather ''wind_speed'') @ uv_tip (weather ''uv_index'') @
       weather_tip (get_or_zero weather ''weather_code'')"
    "get_bar (factors r) ''water_temp'' = Some (case marine ''sea_surface_temp'' of None \<Rightarrow> 0 | Some t \<Rightarrow> temp_bar t)"
    "get_bar (factors r) ''wave_height'' = Some (case marine ''wave_height'' of None \<Rightarrow> 0 | Some h \<Rightarrow> wave_bar h)"
    "get_bar (factors r) ''wind_speed'' = Some (case weather ''wind_speed'' of None \<Rightarrow> 0 | Some s \<Rightarrow> wind_bar s)"
    "get_bar (factors r) ''uv_index'' = Some (case weather ''uv_index'' of None \<Rightarrow> 0 | Some u \<Rightarrow> min 10 (py_int u))"
    "get_bar (factors r) ''precipitation'' = Some (min 10 (py_int (get_or_zero weather ''precipitation'')))"
    "get_bar (factors r) ''weather_code'' = Some 0"
proof -
  obtain wt_l wt_r where wt:
    "classify (marine ''sea_surface_temp'') WATER_TEMP_LABELS = Inr (wt_l, None, wt_r)"
    "marine ''sea_surface_temp'' = None \<longrightarrow> wt_l = ''Unknown''"
    using classify_water by blast
  obtain wh_l wh_r where wh:
    "classify (marine ''wave_height'') WAVE_HEIGHT_LABELS =
       Inr (wh_l, (case marine ''wave_height'' of None \<Rightarrow> None
               | Some h \<Rightarrow> Some (if h < 1 then YES else if h < 2 then MAYBE else NO)), wh_r)"
    "marine ''wave_height'' = None \<longrightarrow> wh_l = ''Unknown''"
    using classify_wave by blast
  obtain ws_l ws_r where ws:
    "classify (weather ''wind_speed'') WIND_SPEED_LABELS =
       Inr (ws_l, (case weather ''wind_speed'' of None \<Rightarrow> None
               | Some s \<Rightarrow> Some (if s < 20 then YES else if s < 40 then MAYBE else NO)), ws_r)"
    "weather ''wind_speed'' = None \<longrightarrow> ws_l = ''Unknown''"
    using classify_wind by blast
  obtain uv_l uv_r where uv:
    "classify (weather ''uv_index'') UV_INDEX_LABELS = Inr (uv_l, None, uv_r)"
    "weather ''uv_index'' = None \<longrightarrow> uv_l = ''Unknown''"
    using classify_uv by blast
  obtain pr_l pr_r where pr:
    "classify (Some (get_or_zero weather ''precipitation'')) PRECIP_LABELS =
       Inr (pr_l, Some (if get_or_zero weather ''precipitation'' < 2 then YES
                 else if get_or_zero weather ''precipitation'' < 5 then MAYBE else NO), pr_r)"
    "get_or_zero weather ''precipitation'' = 0 \<longrightarrow> pr_l = ''None''"
    using classify_precip by blast
  define fs where "fs =
      [(''water_temp'',
        \<lparr>value = marine ''sea_surface_temp'', unit = ''C'', label = wt_l,
         factor.verdict = None,
         bar = (case marine ''sea_surface_temp'' of None \<Rightarrow> 0 | Some t \<Rightarrow> temp_bar t)\<rparr>),
       (''wave_height'',
        \<lparr>value = marine ''wave_height'', unit = ''m'', label = wh_l,
         factor.verdict =
           (case marine ''wave_height'' of
              None \<Rightarrow> None
            | Some h \<Rightarrow> Some (if h < 1 then YES else if h < 2 then MAYBE else NO)),
         bar = (case marine ''wave_height'' of None \<Rightarrow> 0 | Some h \<Rightarrow> wave_bar h)\<rparr>),
       (''wind_speed'',
        \<lparr>value = weather ''wind_speed'', unit = ''km/h'', label = ws_l,
         factor.verdict =
           (case weather ''wind_speed'' of
              None \<Rightarrow> None
            | Some s \<Rightarrow> Some (if s < 20 then YES else if s < 40 then MAYBE else NO)),
         bar = (case weather ''wind_speed'' of None \<Rightarrow> 0 | Some s \<Rightarrow> wind_bar s)\<rparr>),
       (''uv_index'',
        \<lparr>value = weather ''uv_index'', unit = '''', label = uv_l,
         factor.verdict = None,
         bar = (case weather ''uv_index'' of None \<Rightarrow> 0 | Some u \<Rightarrow> min 10 (py_int u))\<rparr>),
       (''precipitation'',
        \<lparr>value = Some (get_or_zero weather ''precipitation''), unit = ''mm'', label = pr_l,
         factor.verdict =
           Some (if get_or_zero weather ''precipitation'' < 2 then YES
                 else if get_or_zero weather ''precipitation'' < 5 then MAYBE else NO),
         bar = min 10 (py_int (get_or_zero weather ''precipitation''))\<rparr>),
       (''weather_code'',
        \<lparr>value = Some (get_or_zero weather ''weather_code''), unit = '''',
         label = get_default WMO_WEATHER_DESCRIPTIONS (get_or_zero weather ''weather_code'') ''Unknown'',
         factor.verdict =
           Some (if has_key DANGEROUS_WEATHER_CODES (get_or_zero weather ''weather_code'') then NO
                 else if has_key WARNING_WEATHER_CODES (get_or_zero weather ''weather_code'') then MAYBE
                 else YES),
         bar = 0\<rparr>)]"
  note lbl = wt(2) wh(2) ws(2) uv(2) pr(2)
  have ev: "evaluate_conditions order marine weather =
       Inr \<lparr>evaluation.verdict = compute_verdict fs, factors = fs,
            tips =
              (case marine ''sea_surface_temp'' of
                 None \<Rightarrow> []
               | Some t \<Rightarrow>
                   if t < 15 then [''Water is very cold. Consider a wetsuit.'']
                   else if t < 18 then [''Water is cold. A wetsuit may help.'']
                   else []) @
              (case marine ''wave_height'' of
                 None \<Rightarrow> []
               | Some h \<Rightarrow>
                   if h \<ge> 2.5 then [''Dangerous waves. Red flag conditions.'']
                   else if h \<ge> 1.5 then [''Rough waves. Experienced swimmers only.'']
                   else []) @
              (case weather ''wind_speed'' of
                 None \<Rightarrow> []
               | Some s \<Rightarrow>
                   if s \<ge> 40 then [''Strong winds create dangerous rip currents.''] else []) @
              (case weather ''uv_index'' of
                 None \<Rightarrow> []
               | Some u \<Rightarrow>
                   if u \<ge> 8 then [''Very high UV. Wear sunscreen SPF 50+ and reapply often.'']
                   else if u \<ge> 6 then [''High UV. Wear sunscreen.'']
                   else if u \<ge> 3 then [''Moderate UV. Sunscreen recommended.'']
                   else []) @
              (if has_key DANGEROUS_WEATHER_CODES (get_or_zero weather ''weather_code'')
               then [''Dangerous weather: '' @
                     get_default WMO_WEATHER_DESCRIPTIONS (get_or_zero weather ''weather_code'') ''Unknown'' @
                     ''. Beach closed.'']
               else []),
            summary = generate_summary order (compute_verdict fs) fs\<rparr>"
      (is "_ = Inr ?r")
    by (simp add: evaluate_conditions_def Let_def bind_result_def wt(1) wh(1) ws(1) uv(1) pr(1) fs_def)
  show thesis
  proof (rule that [of ?r])
    show "evaluate_conditions order marine weather = Inr ?r" by (rule ev)
    show "evaluation.verdict ?r = compute_verdict (factors ?r)" by simp
    show "summary ?r = generate_summary order (evaluation.verdict ?r) (factors ?r)" by simp
    show "map fst (factors ?r) =
       [''water_temp'', ''wave_height'', ''wind_speed'', ''uv_index'', ''precipitation'',
        ''weather_code'']" by (simp add: fs_def)
    show "map (\<lambda>(key, f). factor.verdict f) (filter (\<lambda>(key, f). key \<in> SAFETY_FACTORS) (factors ?r))
       = map (get_verdict (factors ?r))
           [''wave_height'', ''wind_speed'', ''precipitation'', ''weather_code'']"
      by (simp add: fs_def get_verdict_def SAFETY_FACTORS_def)
    show "get_verdict (factors ?r) ''water_temp'' = None" by (simp add: fs_def get_verdict_def)
    show "get_verdict (factors ?r) ''wave_height'' =
       (case marine ''wave_height'' of None \<Rightarrow> None
        | Some h \<Rightarrow> Some (if h < 1 then YES else if h < 2 then MAYBE else NO))"
      by (simp add: fs_def get_verdict_def)
    show "get_verdict (factors ?r) ''wind_speed'' =
       (case weather ''wind_speed'' of None \<Rightarrow> None
        | Some s \<Rightarrow> Some (if s < 20 then YES else if s < 40 then MAYBE else NO))"
      by (simp add: fs_def get_verdict_def)
    show "get_verdict (factors ?r) ''uv_index'' = None" by (simp add: fs_def get_verdict_def)
    show "get_verdict (factors ?r) ''precipitation'' =
       Some (if get_or_zero weather ''precipitation'' < 2 then YES
             else if get_or_zero weather ''precipitation'' < 5 then MAYBE else NO)"
      by (simp add: fs_def get_verdict_def)
    show "get_verdict (factors ?r) ''weather_code'' =
       Some (if get_or_zero weather ''weather_code'' \<in> fst ` set DANGEROUS_WEATHER_CODES then NO
             else if get_or_zero weather ''weather_code'' \<in> fst ` set WARNING_WEATHER_CODES
             then MAYBE else YES)"
      by (simp add: fs_def get_verdict_def has_key_iff)
    show "marine ''sea_surface_temp'' = None \<longrightarrow> get_label (factors ?r) ''water_temp'' = Some ''Unknown''"
      using lbl by (simp add: fs_def get_label_def)
    show "marine ''wave_height'' = None \<longrightarrow> get_label (factors ?r) ''wave_height'' = Some ''Unknown''"
      using lbl by (simp add: fs_def get_label_def)
    show "weather ''wind_speed'' = None \<longrightarrow> get_label (factors ?r) ''wind_speed'' = Some ''Unknown''"
      using lbl by (simp add: fs_def get_label_def)
    show "weather ''uv_index'' = None \<longrightarrow> get_label (factors ?r) ''uv_index'' = Some ''Unknown''"
      using lbl by (simp add: fs_def get_label_def)
    show "get_or_zero weather ''precipitation'' = 0 \<longrightarrow>
        get_label (factors ?r) ''precipitation'' = Some ''None''"
      using lbl by (simp add: fs_def get_label_def)
    show "get_label (factors ?r) ''weather_code'' =
       Some (get_default WMO_WEATHER_DESCRIPTIONS (get_or_zero weather ''weather_code'') ''Unknown'')"
      by (simp add: fs_def get_label_def)
    show "tips ?r = water_temp_tip (marine ''sea_surface_temp'') @ wave_tip (marine ''wave_height'') @
       wind_tip (weather ''wind_speed'') @ uv_tip (weather ''uv_index'') @
       weather_tip (get_or_zero weather ''weather_code'')"
      by (simp only: evaluation.select_convs water_temp_tip_eq wave_tip_eq wind_tip_eq uv_tip_eq
          weather_tip_eq)
    show "get_bar (factors ?r) ''water_temp'' = Some (case marine ''sea_surface_temp'' of None \<Rightarrow> 0 | Some t \<Rightarrow> temp_bar t)"
      by (simp add: fs_def get_bar_def)
    show "get_bar (factors ?r) ''wave_height'' = Some (case marine ''wave_height'' of None \<Rightarrow> 0 | Some h \<Rightarrow> wave_bar h)"
      by (simp add: fs_def get_bar_def)
    show "get_bar (factors ?r) ''wind_speed'' = Some (case weather ''wind_speed'' of None \<Rightarrow> 0 | Some s \<Rightarrow> wind_bar s)"
      by (simp add: fs_def get_bar_def)
    show "get_bar (factors ?r) ''uv_index'' = Some (case weather ''uv_index'' of None \<Rightarrow> 0 | Some u \<Rightarrow> min 10 (py_int u))"
      by (simp add: fs_def get_bar_def)
    show "get_bar (factors ?r) ''precipitation'' = Some (min 10 (py_int (get_or_zero weather ''precipitation'')))"
      by (simp add: fs_def get_bar_def)
    show "get_bar (factors ?r) ''weather_code'' = Some 0"
      by (simp add: fs_def get_bar_def)
  qed
qed

text \<open>
  Claim C1. For every pair of readings within the double range the overall verdict is the aggregate of the verdicts
  of the four safety factors (wave height, wind speed, precipitation, weather code) and of
  nothing else: NO when one of them is NO; otherwise NO when two or more are MAYBE;
  otherwise MAYBE when exactly one is MAYBE; otherwise YES. A wave height of 1.6 with a
  wind speed of 35.0 (each MAYBE) gives NO; a wave height of 1.6 with the three other
  safety factors at YES gives MAYBE.
\<close>

theorem verdict_precedence:
  assumes "readings_in_range marine weather"
  shows "\<exists>r. evaluate_conditions order marine weather = Inr r \<and>
     evaluation.verdict r =
       aggregate (map (get_verdict (factors r))
         [''wave_height'', ''wind_speed'', ''precipitation'', ''weather_code'']) \<and>
     (marine ''wave_height'' = Some 1.6 \<and> weather ''wind_speed'' = Some 35.0 \<longrightarrow>
        get_verdict (factors r) ''wave_height'' = Some MAYBE \<and>
        get_verdict (factors r) ''wind_speed'' = Some MAYBE \<and>
        evaluation.verdict r = NO) \<and>
     (marine ''wave_height'' = Some 1.6 \<and>
      get_verdict (factors r) ''wind_speed'' = Some YES \<and>
      get_verdict (factors r) ''precipitation'' = Some YES \<and>
      get_verdict (factors r) ''weather_code'' = Some YES \<longrightarrow>
        evaluation.verdict r = MAYBE)"
proof -
  obtain r where
    r: "evaluate_conditions order marine weather = Inr r"
    and v: "evaluation.verdict r = compute_verdict (factors r)"
    and sel: "map (\<lambda>(key, f). factor.verdict f) (filter (\<lambda>(key, f). key \<in> SAFETY_FACTORS) (factors r))
       = map (get_verdict (factors r))
           [''wave_height'', ''wind_speed'', ''precipitation'', ''weather_code'']"
    and wh: "get_verdict (factors r) ''wave_height'' =
       (case marine ''wave_height'' of None \<Rightarrow> None
        | Some h \<Rightarrow> Some (if h < 1 then YES else if h < 2 then MAYBE else NO))"
    and ws: "get_verdict (factors r) ''wind_speed'' =
       (case weather ''wind_speed'' of None \<Rightarrow> None
        | Some s \<Rightarrow> Some (if s < 20 then YES else if s < 40 then MAYBE else NO))"
    by (rule evaluate_conditions_facts [of order marine weather])
  have agg: "evaluation.verdict r =
       aggregate (map (get_verdict (factors r))
         [''wave_height'', ''wind_speed'', ''precipitation'', ''weather_code''])"
    by (simp only: v compute_verdict_aggregate sel)
  show ?thesis
  proof (intro exI [of _ r] conjI impI)
    show "evaluate_conditions order marine weather = Inr r" by (rule r)
    show "evaluation.verdict r =
       aggregate (map (get_verdict (factors r))
         [''wave_height'', ''wind_speed'', ''precipitation'', ''weather_code''])" by (rule agg)
  next
    assume a: "marine ''wave_height'' = Some 1.6 \<and> weather ''wind_speed'' = Some 35.0"
    then show "get_verdict (factors r) ''wave_height'' = Some MAYBE" by (simp add: wh)
    from a show "get_verdict (factors r) ''wind_speed'' = Some MAYBE" by (simp add: ws)
    from a show "evaluation.verdict r = NO" by (simp add: agg wh ws aggregate_def)
  next
    assume a: "marine ''wave_height'' = Some 1.6 \<and>
      get_verdict (factors r) ''wind_speed'' = Some YES \<and>
      get_verdict (factors r) ''precipitation'' = Some YES \<and>
      get_verdict (factors r) ''weather_code'' = Some YES"
    then have "get_verdict (factors r) ''wave_height'' = Some MAYBE" by (simp add: wh)
    with a show "evaluation.verdict r = MAYBE" by (simp add: agg aggregate_def)
  qed
qed

theorem verdict_precedence_witness:
  "readings_in_range [''wave_height'' \<mapsto> 1.6] [''wind_speed'' \<mapsto> 35.0] \<and>
   readings_in_range [''wave_height'' \<mapsto> 1.6] [''wind_speed'' \<mapsto> 8.0] \<and>
   (\<exists>r. evaluate_conditions written_order [''wave_height'' \<mapsto> 1.6] [''wind_speed'' \<mapsto> 35.0] = Inr r \<and>
      get_verdict (factors r) ''wave_height'' = Some MAYBE \<and>
      get_verdict (factors r) ''wind_speed'' = Some MAYBE \<and>
      evaluation.verdict r = NO) \<and>
   (\<exists>r. evaluate_conditions written_order [''wave_height'' \<mapsto> 1.6] [''wind_speed'' \<mapsto> 8.0] = Inr r \<and>
      get_verdict (factors r) ''wind_speed'' = Some YES \<and>
      get_verdict (factors r) ''precipitation'' = Some YES \<and>
      get_verdict (factors r) ''weather_code'' = Some YES \<and>
      evaluation.verdict r = MAYBE)"
proof (intro conjI)
  show g1: "readings_in_range [''wave_height'' \<mapsto> 1.6] [''wind_speed'' \<mapsto> 35.0]"
    by (simp add: readings_in_range_def present_in_range_def in_double_range_small)
  show g2: "readings_in_range [''wave_height'' \<mapsto> 1.6] [''wind_speed'' \<mapsto> 8.0]"
    by (simp add: readings_in_range_def present_in_range_def in_double_range_small)
  have h: "[''wave_height'' \<mapsto> 1.6] ''wave_height'' = Some (1.6::rat)"
     "[''wind_speed'' \<mapsto> 35.0] ''wind_speed'' = Some (35.0::rat)"
    by simp_all
  from verdict_precedence [OF g1, where order = written_order] h
  show "\<exists>r. evaluate_conditions written_order [''wave_height'' \<mapsto> 1.6] [''wind_speed'' \<mapsto> 35.0] = Inr r \<and>
      get_verdict (factors r) ''wave_height'' = Some MAYBE \<and>
      get_verdict (factors r) ''wind_speed'' = Some MAYBE \<and>
      evaluation.verdict r = NO"
    by blast
  let ?m = "[''wave_height'' \<mapsto> 1.6::rat]" and ?w = "[''wind_speed'' \<mapsto> 8.0::rat]"
  obtain r0 where
    r0: "evaluate_conditions written_order ?m ?w = Inr r0"
    and ws: "get_verdict (factors r0) ''wind_speed'' =
       (case ?w ''wind_speed'' of None \<Rightarrow> None
        | Some s \<Rightarrow> Some (if s < 20 then YES else if s < 40 then MAYBE else NO))"
    and pr: "get_verdict (factors r0) ''precipitation'' =
       Some (if get_or_zero ?w ''precipitation'' < 2 then YES
             else if get_or_zero ?w ''precipitation'' < 5 then MAYBE else NO)"
    and wc: "get_verdict (factors r0) ''weather_code'' =
       Some (if get_or_zero ?w ''weather_code'' \<in> fst ` set DANGEROUS_WEATHER_CODES then NO
             else if get_or_zero ?w ''weather_code'' \<in> fst ` set WARNING_WEATHER_CODES
             then MAYBE else YES)"
    by (rule evaluate_conditions_facts [of written_order ?m ?w])
  have h: "?m ''wave_height'' = Some 1.6"
    "get_verdict (factors r0) ''wind_speed'' = Some YES"
    "get_verdict (factors r0) ''precipitation'' = Some YES"
    "get_verdict (factors r0) ''weather_code'' = Some YES"
    by (simp_all add: ws pr wc get_or_zero_def DANGEROUS_WEATHER_CODES_def
        WARNING_WEATHER_CODES_def)
  from verdict_precedence [OF g2, where order = written_order] r0 h
  show "\<exists>r. evaluate_conditions written_order ?m ?w = Inr r \<and>
      get_verdict (factors r) ''wind_speed'' = Some YES \<and>
      get_verdict (factors r) ''precipitation'' = Some YES \<and>
      get_verdict (factors r) ''weather_code'' = Some YES \<and>
      evaluation.verdict r = MAYBE"
    by auto
qed

lemma evaluate_conditions_aggregate:
  assumes "evaluate_conditions order marine weather = Inr r"
  shows "evaluation.verdict r =
       aggregate (map (get_verdict (factors r))
         [''wave_height'', ''wind_speed'', ''precipitation'', ''weather_code''])"
proof -
  obtain r' where
    r': "evaluate_conditions order marine weather = Inr r'"
    and v: "evaluation.verdict r' = compute_verdict (factors r')"
    and sel: "map (\<lambda>(key, f). factor.verdict f) (filter (\<lambda>(key, f). key \<in> SAFETY_FACTORS) (factors r'))
       = map (get_verdict (factors r'))
           [''wave_height'', ''wind_speed'', ''precipitation'', ''weather_code'']"
    by (rule evaluate_conditions_facts [of order marine weather])
  from assms r' have "r' = r" by simp
  with v sel show ?thesis by (simp only: compute_verdict_aggregate)
qed

lemma aggregate_YES_iff:
  "aggregate vs = YES \<longleftrightarrow> Some NO \<notin> set vs \<and> Some MAYBE \<notin> set vs"
  using count_list_0_iff [of vs "Some MAYBE"] by (auto simp: aggregate_def)

lemma aggregate_NO: "Some NO \<in> set vs \<Longrightarrow> aggregate vs = NO"
  by (simp add: aggregate_def)

text \<open>
  Claim C3. The weather code is classified by membership: a code of the dangerous set gives
  NO, otherwise a code of the warning set gives MAYBE, otherwise YES. Code 95 gives the
  weather-code verdict NO and the overall verdict NO whatever the other readings are
  within the double range;
  code 61 gives MAYBE; code 1 gives YES.
\<close>

theorem weather_code_classification:
  assumes "readings_in_range marine weather"
  shows "\<exists>r. evaluate_conditions order marine weather = Inr r \<and>
     get_verdict (factors r) ''weather_code'' =
       Some (if get_or_zero weather ''weather_code'' \<in> fst ` set DANGEROUS_WEATHER_CODES then NO
             else if get_or_zero weather ''weather_code'' \<in> fst ` set WARNING_WEATHER_CODES
             then MAYBE else YES) \<and>
     (weather ''weather_code'' = Some 95 \<longrightarrow>
        get_verdict (factors r) ''weather_code'' = Some NO \<and> evaluation.verdict r = NO) \<and>
     (weather ''weather_code'' = Some 61 \<longrightarrow>
        get_verdict (factors r) ''weather_code'' = Some MAYBE) \<and>
     (weather ''weather_code'' = Some 1 \<longrightarrow>
        get_verdict (factors r) ''weather_code'' = Some YES)"
proof -
  obtain r where
    r: "evaluate_conditions order marine weather = Inr r"
    and wc: "get_verdict (factors r) ''weather_code'' =
       Some (if get_or_zero weather ''weather_code'' \<in> fst ` set DANGEROUS_WEATHER_CODES then NO
             else if get_or_zero weather ''weather_code'' \<in> fst ` set WARNING_WEATHER_CODES
             then MAYBE else YES)"
    by (rule evaluate_conditions_facts [of order marine weather])
  note agg = evaluate_conditions_aggregate [OF r]
  have c95: "get_verdict (factors r) ''weather_code'' = Some NO"
    if "weather ''weather_code'' = Some 95"
    using that by (simp add: wc get_or_zero_def DANGEROUS_WEATHER_CODES_def)
  have v95: "evaluation.verdict r = NO" if "weather ''weather_code'' = Some 95"
    using c95 [OF that] by (simp add: agg aggregate_NO)
  have c61: "get_verdict (factors r) ''weather_code'' = Some MAYBE"
    if "weather ''weather_code'' = Some 61"
    using that
    by (simp add: wc get_or_zero_def DANGEROUS_WEATHER_CODES_def WARNING_WEATHER_CODES_def)
  have c1: "get_verdict (factors r) ''weather_code'' = Some YES"
    if "weather ''weather_code'' = Some 1"
    using that
    by (simp add: wc get_or_zero_def DANGEROUS_WEATHER_CODES_def WARNING_WEATHER_CODES_def)
  from r wc c95 v95 c61 c1 show ?thesis by blast
qed

theorem weather_code_classification_witness:
  "readings_in_range [''wave_height'' \<mapsto> 0.3] [''wind_speed'' \<mapsto> 5.0, ''weather_code'' \<mapsto> 95] \<and>
   readings_in_range Map.empty [''weather_code'' \<mapsto> 61] \<and>
   readings_in_range Map.empty [''weather_code'' \<mapsto> 1] \<and>
   (\<exists>r. evaluate_conditions written_order [''wave_height'' \<mapsto> 0.3]
          [''wind_speed'' \<mapsto> 5.0, ''weather_code'' \<mapsto> 95] = Inr r \<and>
      get_verdict (factors r) ''weather_code'' = Some NO \<and> evaluation.verdict r = NO) \<and>
   (\<exists>r. evaluate_conditions written_order Map.empty [''weather_code'' \<mapsto> 61] = Inr r \<and>
      get_verdict (factors r) ''weather_code'' = Some MAYBE) \<and>
   (\<exists>r. evaluate_conditions written_order Map.empty [''weather_code'' \<mapsto> 1] = Inr r \<and>
      get_verdict (factors r) ''weather_code'' = Some YES)"
proof (intro conjI)
  show g95: "readings_in_range [''wave_height'' \<mapsto> 0.3] [''wind_speed'' \<mapsto> 5.0, ''weather_code'' \<mapsto> 95]"
    by (simp add: readings_in_range_def present_in_range_def in_double_range_small)
  show g61: "readings_in_range Map.empty [''weather_code'' \<mapsto> 61]"
    by (simp add: readings_in_range_def present_in_range_def)
  show g1: "readings_in_range Map.empty [''weather_code'' \<mapsto> 1]"
    by (simp add: readings_in_range_def present_in_range_def)
  have "[''wind_speed'' \<mapsto> 5.0, ''weather_code'' \<mapsto> 95::rat] ''weather_code'' = Some 95" by simp
  with weather_code_classification [OF g95, where order = written_order]
  show "\<exists>r. evaluate_conditions written_order [''wave_height'' \<mapsto> 0.3]
          [''wind_speed'' \<mapsto> 5.0, ''weather_code'' \<mapsto> 95] = Inr r \<and>
      get_verdict (factors r) ''weather_code'' = Some NO \<and> evaluation.verdict r = NO"
    by blast
  have "[''weather_code'' \<mapsto> 61::rat] ''weather_code'' = Some 61" by simp
  with weather_code_classification [OF g61, where order = written_order]
  show "\<exists>r. evaluate_conditions written_order Map.empty [''weather_code'' \<mapsto> 61] = Inr r \<and>
      get_verdict (factors r) ''weather_code'' = Some MAYBE"
    by blast
  have "[''weather_code'' \<mapsto> 1::rat] ''weather_code'' = Some 1" by simp
  with weather_code_classification [OF g1, where order = written_order]
  show "\<exists>r. evaluate_conditions written_order Map.empty [''weather_code'' \<mapsto> 1] = Inr r \<and>
      get_verdict (factors r) ''weather_code'' = Some YES"
    by blast
qed

text \<open>
  Claim C5. For all values of the water temperature and of the UV index within the double
  range, and all other readings within it, the
  \<open>water_temp\<close> and \<open>uv_index\<close> factors carry no verdict and the overall verdict does not
  depend on them: replacing the two readings by anything leaves the overall verdict
  unchanged, and when the four safety factors classify to YES the overall verdict is YES.
\<close>

theorem informational_isolation:
  assumes "readings_in_range marine weather"
    and "present_in_range t" and "present_in_range u"
  shows "\<exists>r r'. evaluate_conditions order marine weather = Inr r \<and>
     evaluate_conditions order (marine(''sea_surface_temp'' := t)) (weather(''uv_index'' := u))
       = Inr r' \<and>
     get_verdict (factors r) ''water_temp'' = None \<and>
     get_verdict (factors r) ''uv_index'' = None \<and>
     evaluation.verdict r' = evaluation.verdict r \<and>
     (get_verdict (factors r) ''wave_height'' = Some YES \<and>
      get_verdict (factors r) ''wind_speed'' = Some YES \<and>
      get_verdict (factors r) ''precipitation'' = Some YES \<and>
      get_verdict (factors r) ''weather_code'' = Some YES \<longrightarrow>
        evaluation.verdict r = YES)"
proof -
  let ?m = "marine(''sea_surface_temp'' := t)" and ?w = "weather(''uv_index'' := u)"
  obtain r where
    r: "evaluate_conditions order marine weather = Inr r"
    and wt: "get_verdict (factors r) ''water_temp'' = None"
    and uv: "get_verdict (factors r) ''uv_index'' = None"
    and wh: "get_verdict (factors r) ''wave_height'' =
       (case marine ''wave_height'' of None \<Rightarrow> None
        | Some h \<Rightarrow> Some (if h < 1 then YES else if h < 2 then MAYBE else NO))"
    and ws: "get_verdict (factors r) ''wind_speed'' =
       (case weather ''wind_speed'' of None \<Rightarrow> None
        | Some s \<Rightarrow> Some (if s < 20 then YES else if s < 40 then MAYBE else NO))"
    and pr: "get_verdict (factors r) ''precipitation'' =
       Some (if get_or_zero weather ''precipitation'' < 2 then YES
             else if get_or_zero weather ''precipitation'' < 5 then MAYBE else NO)"
    and wc: "get_verdict (factors r) ''weather_code'' =
       Some (if get_or_zero weather ''weather_code'' \<in> fst ` set DANGEROUS_WEATHER_CODES then NO
             else if get_or_zero weather ''weather_code'' \<in> fst ` set WARNING_WEATHER_CODES
             then MAYBE else YES)"
    by (rule evaluate_conditions_facts [of order marine weather])
  obtain r' where
    r': "evaluate_conditions order ?m ?w = Inr r'"
    and wh': "get_verdict (factors r') ''wave_height'' =
       (case ?m ''wave_height'' of None \<Rightarrow> None
        | Some h \<Rightarrow> Some (if h < 1 then YES else if h < 2 then MAYBE else NO))"
    and ws': "get_verdict (factors r') ''wind_speed'' =
       (case ?w ''wind_speed'' of None \<Rightarrow> None
        | Some s \<Rightarrow> Some (if s < 20 then YES else if s < 40 then MAYBE else NO))"
    and pr': "get_verdict (factors r') ''precipitation'' =
       Some (if get_or_zero ?w ''precipitation'' < 2 then YES
             else if get_or_zero ?w ''precipitation'' < 5 then MAYBE else NO)"
    and wc': "get_verdict (factors r') ''weather_code'' =
       Some (if get_or_zero ?w ''weather_code'' \<in> fst ` set DANGEROUS_WEATHER_CODES then NO
             else if get_or_zero ?w ''weather_code'' \<in> fst ` set WARNING_WEATHER_CODES
             then MAYBE else YES)"
    by (rule evaluate_conditions_facts [of order ?m ?w])
  have same: "get_verdict (factors r') ''wave_height'' = get_verdict (factors r) ''wave_height''"
    "get_verdict (factors r') ''wind_speed'' = get_verdict (factors r) ''wind_speed''"
    "get_verdict (factors r') ''precipitation'' = get_verdict (factors r) ''precipitation''"
    "get_verdict (factors r') ''weather_code'' = get_verdict (factors r) ''weather_code''"
    by (simp_all add: wh wh' ws ws' pr pr' wc wc' get_or_zero_def)
  have eq: "evaluation.verdict r' = evaluation.verdict r"
    by (simp add: evaluate_conditions_aggregate [OF r] evaluate_conditions_aggregate [OF r'] same)
  have yes: "evaluation.verdict r = YES"
    if "get_verdict (factors r) ''wave_height'' = Some YES \<and>
      get_verdict (factors r) ''wind_speed'' = Some YES \<and>
      get_verdict (factors r) ''precipitation'' = Some YES \<and>
      get_verdict (factors r) ''weather_code'' = Some YES"
    using that by (simp add: evaluate_conditions_aggregate [OF r] aggregate_def)
  from r r' wt uv eq yes show ?thesis by blast
qed

theorem informational_isolation_witness:
  "readings_in_range [''wave_height'' \<mapsto> 0.3] [''wind_speed'' \<mapsto> 5.0] \<and>
   present_in_range (Some 8.0) \<and> present_in_range (Some 11.0) \<and>
   (\<exists>r r'. evaluate_conditions written_order [''wave_height'' \<mapsto> 0.3] [''wind_speed'' \<mapsto> 5.0] = Inr r \<and>
     evaluate_conditions written_order [''wave_height'' \<mapsto> 0.3, ''sea_surface_temp'' \<mapsto> 8.0]
        [''wind_speed'' \<mapsto> 5.0, ''uv_index'' \<mapsto> 11.0] = Inr r' \<and>
     get_verdict (factors r) ''wave_height'' = Some YES \<and>
     get_verdict (factors r) ''wind_speed'' = Some YES \<and>
     get_verdict (factors r) ''precipitation'' = Some YES \<and>
     get_verdict (factors r) ''weather_code'' = Some YES \<and>
     evaluation.verdict r = YES \<and> evaluation.verdict r' = YES)"
proof -
  let ?m = "[''wave_height'' \<mapsto> 0.3::rat]" and ?w = "[''wind_speed'' \<mapsto> 5.0::rat]"
  obtain r0 where
    r0: "evaluate_conditions written_order ?m ?w = Inr r0"
    and wh: "get_verdict (factors r0) ''wave_height'' =
       (case ?m ''wave_height'' of None \<Rightarrow> None
        | Some h \<Rightarrow> Some (if h < 1 then YES else if h < 2 then MAYBE else NO))"
    and ws: "get_verdict (factors r0) ''wind_speed'' =
       (case ?w ''wind_speed'' of None \<Rightarrow> None
        | Some s \<Rightarrow> Some (if s < 20 then YES else if s < 40 then MAYBE else NO))"
    and pr: "get_verdict (factors r0) ''precipitation'' =
       Some (if get_or_zero ?w ''precipitation'' < 2 then YES
             else if get_or_zero ?w ''precipitation'' < 5 then MAYBE else NO)"
    and wc: "get_verdict (factors r0) ''weather_code'' =
       Some (if get_or_zero ?w ''weather_code'' \<in> fst ` set DANGEROUS_WEATHER_CODES then NO
             else if get_or_zero ?w ''weather_code'' \<in> fst ` set WARNING_WEATHER_CODES
             then MAYBE else YES)"
    by (rule evaluate_conditions_facts [of written_order ?m ?w])
  have h: "get_verdict (factors r0) ''wave_height'' = Some YES"
    "get_verdict (factors r0) ''wind_speed'' = Some YES"
    "get_verdict (factors r0) ''precipitation'' = Some YES"
    "get_verdict (factors r0) ''weather_code'' = Some YES"
    by (simp_all add: wh ws pr wc get_or_zero_def DANGEROUS_WEATHER_CODES_def
        WARNING_WEATHER_CODES_def)
  have g: "readings_in_range ?m ?w" "present_in_range (Some 8.0)" "present_in_range (Some 11.0)"
    by (simp_all add: readings_in_range_def present_in_range_def in_double_range_small)
  from informational_isolation [OF g, where order = written_order] r0 h g
  show ?thesis by auto
qed

lemma tips_example:
  "map_sum id tips
     (evaluate_conditions written_order
        [''sea_surface_temp'' \<mapsto> 14.0, ''wave_height'' \<mapsto> 2.0]
        [''wind_speed'' \<mapsto> 45.0, ''uv_index'' \<mapsto> 9.0, ''weather_code'' \<mapsto> 95]) =
   Inr [''Water is very cold. Consider a wetsuit.'',
        ''Rough waves. Experienced swimmers only.'',
        ''Strong winds create dangerous rip currents.'',
        ''Very high UV. Wear sunscreen SPF 50+ and reapply often.'',
        ''Dangerous weather: Thunderstorm. Beach closed.'']"
  by code_simp

text \<open>
  Claim C7. For readings within the double range the tips are, in this order, the water-temperature tip (below 15 "very cold",
  otherwise below 18 "cold"), the wave tip (from 2.5 "dangerous", otherwise from 1.5
  "rough"), the wind tip (from 40), the UV tip (from 8, otherwise from 6, otherwise from 3)
  and the weather tip (code in the dangerous set); nothing is removed or reordered. With a water
  temperature of 14, waves of 2.0, a wind of 45, a UV index of 9 and a thunderstorm, the
  five tips come in this order.
\<close>

theorem tips_in_fixed_order:
  assumes "readings_in_range marine weather"
  shows "(\<exists>r. evaluate_conditions order marine weather = Inr r \<and>
     tips r =
       water_temp_tip (marine ''sea_surface_temp'') @
       wave_tip (marine ''wave_height'') @
       wind_tip (weather ''wind_speed'') @
       uv_tip (weather ''uv_index'') @
       weather_tip (get_or_zero weather ''weather_code'')) \<and>
   (\<exists>r. evaluate_conditions written_order
        [''sea_surface_temp'' \<mapsto> 14.0, ''wave_height'' \<mapsto> 2.0]
        [''wind_speed'' \<mapsto> 45.0, ''uv_index'' \<mapsto> 9.0, ''weather_code'' \<mapsto> 95] = Inr r \<and>
     tips r =
       [''Water is very cold. Consider a wetsuit.'',
        ''Rough waves. Experienced swimmers only.'',
        ''Strong winds create dangerous rip currents.'',
        ''Very high UV. Wear sunscreen SPF 50+ and reapply often.'',
        ''Dangerous weather: Thunderstorm. Beach closed.''])"
proof (rule conjI)
  obtain r where
    "evaluate_conditions order marine weather = Inr r"
    "tips r = water_temp_tip (marine ''sea_surface_temp'') @ wave_tip (marine ''wave_height'') @
       wind_tip (weather ''wind_speed'') @ uv_tip (weather ''uv_index'') @
       weather_tip (get_or_zero weather ''weather_code'')"
    by (rule evaluate_conditions_facts [of order marine weather])
  then show "\<exists>r. evaluate_conditions order marine weather = Inr r \<and>
     tips r =
       water_temp_tip (marine ''sea_surface_temp'') @
       wave_tip (marine ''wave_height'') @
       wind_tip (weather ''wind_speed'') @
       uv_tip (weather ''uv_index'') @
       weather_tip (get_or_zero weather ''weather_code'')"
    by blast
next
  show "\<exists>r. evaluate_conditions written_order
        [''sea_surface_temp'' \<mapsto> 14.0, ''wave_height'' \<mapsto> 2.0]
        [''wind_speed'' \<mapsto> 45.0, ''uv_index'' \<mapsto> 9.0, ''weather_code'' \<mapsto> 95] = Inr r \<and>
     tips r =
       [''Water is very cold. Consider a wetsuit.'',
        ''Rough waves. Experienced swimmers only.'',
        ''Strong winds create dangerous rip currents.'',
        ''Very high UV. Wear sunscreen SPF 50+ and reapply often.'',
        ''Dangerous weather: Thunderstorm. Beach closed.'']"
    using tips_example
    by (cases "evaluate_conditions written_order
        [''sea_surface_temp'' \<mapsto> 14.0, ''wave_height'' \<mapsto> 2.0]
        [''wind_speed'' \<mapsto> 45.0, ''uv_index'' \<mapsto> 9.0, ''weather_code'' \<mapsto> 95]") simp_all
qed

theorem tips_in_fixed_order_witness:
  "readings_in_range [''sea_surface_temp'' \<mapsto> 14.0, ''wave_height'' \<mapsto> 2.0]
     [''wind_speed'' \<mapsto> 45.0, ''uv_index'' \<mapsto> 9.0, ''weather_code'' \<mapsto> 95] \<and>
   (\<exists>r. evaluate_conditions written_order
        [''sea_surface_temp'' \<mapsto> 14.0, ''wave_height'' \<mapsto> 2.0]
        [''wind_speed'' \<mapsto> 45.0, ''uv_index'' \<mapsto> 9.0, ''weather_code'' \<mapsto> 95] = Inr r \<and>
      tips r =
        [''Water is very cold. Consider a wetsuit.'',
         ''Rough waves. Experienced swimmers only.'',
         ''Strong winds create dangerous rip currents.'',
         ''Very high UV. Wear sunscreen SPF 50+ and reapply often.'',
         ''Dangerous weather: Thunderstorm. Beach closed.''])"
proof -
  let ?m = "[''sea_surface_temp'' \<mapsto> 14.0, ''wave_height'' \<mapsto> 2.0::rat]"
  let ?w = "[''wind_speed'' \<mapsto> 45.0, ''uv_index'' \<mapsto> 9.0, ''weather_code'' \<mapsto> 95::rat]"
  have g: "readings_in_range ?m ?w"
    by (simp add: readings_in_range_def present_in_range_def in_double_range_small)
  have t: "water_temp_tip (?m ''sea_surface_temp'') = [''Water is very cold. Consider a wetsuit.'']"
    "wave_tip (?m ''wave_height'') = [''Rough waves. Experienced swimmers only.'']"
    "wind_tip (?w ''wind_speed'') = [''Strong winds create dangerous rip currents.'']"
    "uv_tip (?w ''uv_index'') = [''Very high UV. Wear sunscreen SPF 50+ and reapply often.'']"
    "weather_tip (get_or_zero ?w ''weather_code'') = [''Dangerous weather: Thunderstorm. Beach closed.'']"
    by (simp_all add: water_temp_tip_def wave_tip_def wind_tip_def uv_tip_def weather_tip_def
        get_or_zero_def get_default_def DANGEROUS_WEATHER_CODES_def WMO_WEATHER_DESCRIPTIONS_def)
  from tips_in_fixed_order [OF g, where order = written_order]
  obtain r where "evaluate_conditions written_order ?m ?w = Inr r"
    "tips r = water_temp_tip (?m ''sea_surface_temp'') @ wave_tip (?m ''wave_height'') @
       wind_tip (?w ''wind_speed'') @ uv_tip (?w ''uv_index'') @
       weather_tip (get_or_zero ?w ''weather_code'')"
    by blast
  then have "\<exists>r. evaluate_conditions written_order ?m ?w = Inr r \<and>
      tips r =
        [''Water is very cold. Consider a wetsuit.'',
         ''Rough waves. Experienced swimmers only.'',
         ''Strong winds create dangerous rip currents.'',
         ''Very high UV. Wear sunscreen SPF 50+ and reapply often.'',
         ''Dangerous weather: Thunderstorm. Beach closed.'']"
    unfolding t by simp
  with g show ?thesis by (rule conjI)
qed

lemma evaluate_conditions_empty:
  "evaluate_conditions order Map.empty Map.empty =
    Inr \<lparr>evaluation.verdict = YES,
         factors =
           [(''water_temp'',
             \<lparr>value = None, unit = ''C'', label = ''Unknown'', factor.verdict = None, bar = 0\<rparr>),
            (''wave_height'',
             \<lparr>value = None, unit = ''m'', label = ''Unknown'', factor.verdict = None, bar = 0\<rparr>),
            (''wind_speed'',
             \<lparr>value = None, unit = ''km/h'', label = ''Unknown'', factor.verdict = None, bar = 0\<rparr>),
            (''uv_index'',
             \<lparr>value = None, unit = '''', label = ''Unknown'', factor.verdict = None, bar = 0\<rparr>),
            (''precipitation'',
             \<lparr>value = Some 0, unit = ''mm'', label = ''None'', factor.verdict = Some YES, bar = 0\<rparr>),
            (''weather_code'',
             \<lparr>value = Some 0, unit = '''', label = ''Clear sky'', factor.verdict = Some YES, bar = 0\<rparr>)],
         tips = [],
         summary = ''Beach is open. Go swim!''\<rparr>"
  by (simp add: evaluate_conditions_def bind_result_def classify_def PRECIP_LABELS_def
      get_or_zero_def get_default_def has_key_def WMO_WEATHER_DESCRIPTIONS_def
      DANGEROUS_WEATHER_CODES_def WARNING_WEATHER_CODES_def py_int_def compute_verdict_def
      SAFETY_FACTORS_def generate_summary_def)

text \<open>
  Claim C10. When both readings are empty, the evaluator returns the overall verdict YES
  with the summary "Beach is open. Go swim!": the absent precipitation and weather code
  default to 0 and classify to YES (labels "None" and "Clear sky"), the absent wave height
  and wind speed have no verdict.
\<close>

theorem empty_readings:
  "\<exists>r. evaluate_conditions order Map.empty Map.empty = Inr r \<and>
     evaluation.verdict r = YES \<and>
     summary r = ''Beach is open. Go swim!'' \<and>
     map_option value (map_of (factors r) ''precipitation'') = Some (Some 0) \<and>
     get_label (factors r) ''precipitation'' = Some ''None'' \<and>
     get_verdict (factors r) ''precipitation'' = Some YES \<and>
     map_option value (map_of (factors r) ''weather_code'') = Some (Some 0) \<and>
     get_label (factors r) ''weather_code'' = Some ''Clear sky'' \<and>
     get_verdict (factors r) ''weather_code'' = Some YES \<and>
     get_verdict (factors r) ''wave_height'' = None \<and>
     get_verdict (factors r) ''wind_speed'' = None"
  by (simp add: evaluate_conditions_empty get_label_def get_verdict_def)

text \<open>
  Claim C9, at an input where it fails. With a UV index of -1 and a precipitation of -5 the
  bar fills of the \<open>uv_index\<close> and \<open>precipitation\<close> factors are -1 and -5: the two bars
  are capped at 10 and have no lower cap.
\<close>

theorem negative_bar_fill:
  "\<exists>r. evaluate_conditions order Map.empty [''uv_index'' \<mapsto> - 1, ''precipitation'' \<mapsto> - 5] = Inr r \<and>
     get_bar (factors r) ''uv_index'' = Some (- 1) \<and>
     get_bar (factors r) ''precipitation'' = Some (- 5)"
proof -
  let ?w = "[''uv_index'' \<mapsto> - 1, ''precipitation'' \<mapsto> - 5::rat]"
  obtain r where
    r: "evaluate_conditions order Map.empty ?w = Inr r"
    and uv: "get_bar (factors r) ''uv_index'' =
        Some (case ?w ''uv_index'' of None \<Rightarrow> 0 | Some u \<Rightarrow> min 10 (py_int u))"
    and pr: "get_bar (factors r) ''precipitation'' =
        Some (min 10 (py_int (get_or_zero ?w ''precipitation'')))"
    by (rule evaluate_conditions_facts [of order Map.empty ?w])
  have i: "py_int (- 1) = - 1" "py_int (- 5) = - 5" by code_simp+
  have "get_bar (factors r) ''uv_index'' = Some (- 1)"
    by (simp add: uv i)
  moreover have "get_bar (factors r) ''precipitation'' = Some (- 5)"
    by (simp add: pr get_or_zero_def i)
  ultimately show ?thesis using r by blast
qed

text \<open>What does hold of the bar fills: four of them lie between 0 and 10 for all
  readings; the UV and precipitation bars are at most 10, and at least 0 exactly when the
  reading is above -1.\<close>

lemma py_int_nonneg_iff: "0 \<le> py_int x \<longleftrightarrow> - 1 < x"
  by (auto simp: py_int_def zero_le_ceiling zero_le_floor)

lemma temp_bar_range: "0 \<le> temp_bar x \<and> temp_bar x \<le> 10"
  by (simp add: temp_bar_def)

lemma wave_bar_range: "0 \<le> wave_bar x \<and> wave_bar x \<le> 10"
  by (simp add: wave_bar_def)

lemma wind_bar_range: "0 \<le> wind_bar x \<and> wind_bar x \<le> 10"
  by (simp add: wind_bar_def)

lemma bar_fill_range:
  assumes "evaluate_conditions order marine weather = Inr r"
  shows "\<exists>b. get_bar (factors r) ''water_temp'' = Some b \<and> 0 \<le> b \<and> b \<le> 10"
    and "\<exists>b. get_bar (factors r) ''wave_height'' = Some b \<and> 0 \<le> b \<and> b \<le> 10"
    and "\<exists>b. get_bar (factors r) ''wind_speed'' = Some b \<and> 0 \<le> b \<and> b \<le> 10"
    and "get_bar (factors r) ''weather_code'' = Some 0"
    and "\<exists>b. get_bar (factors r) ''uv_index'' = Some b \<and> b \<le> 10 \<and>
           (0 \<le> b \<longleftrightarrow> (case weather ''uv_index'' of None \<Rightarrow> True | Some u \<Rightarrow> - 1 < u))"
    and "\<exists>b. get_bar (factors r) ''precipitation'' = Some b \<and> b \<le> 10 \<and>
           (0 \<le> b \<longleftrightarrow> - 1 < get_or_zero weather ''precipitation'')"
proof -
  obtain r' where
    r': "evaluate_conditions order marine weather = Inr r'"
    and b: "get_bar (factors r') ''water_temp'' =
        Some (case marine ''sea_surface_temp'' of None \<Rightarrow> 0 | Some t \<Rightarrow> temp_bar t)"
      "get_bar (factors r') ''wave_height'' =
        Some (case marine ''wave_height'' of None \<Rightarrow> 0 | Some h \<Rightarrow> wave_bar h)"
      "get_bar (factors r') ''wind_speed'' =
        Some (case weather ''wind_speed'' of None \<Rightarrow> 0 | Some s \<Rightarrow> wind_bar s)"
      "get_bar (factors r') ''uv_index'' =
        Some (case weather ''uv_index'' of None \<Rightarrow> 0 | Some u \<Rightarrow> min 10 (py_int u))"
      "get_bar (factors r') ''precipitation'' =
        Some (min 10 (py_int (get_or_zero weather ''precipitation'')))"
      "get_bar (factors r') ''weather_code'' = Some 0"
    by (rule evaluate_conditions_facts [of order marine weather])
  from assms r' have eq: "r' = r" by simp
  show "\<exists>b. get_bar (factors r) ''water_temp'' = Some b \<and> 0 \<le> b \<and> b \<le> 10"
    using b(1) temp_bar_range unfolding eq by (simp split: option.split)
  show "\<exists>b. get_bar (factors r) ''wave_height'' = Some b \<and> 0 \<le> b \<and> b \<le> 10"
    using b(2) wave_bar_range unfolding eq by (simp split: option.split)
  show "\<exists>b. get_bar (factors r) ''wind_speed'' = Some b \<and> 0 \<le> b \<and> b \<le> 10"
    using b(3) wind_bar_range unfolding eq by (simp split: option.split)
  show "get_bar (factors r) ''weather_code'' = Some 0"
    using b(6) unfolding eq .
  show "\<exists>b. get_bar (factors r) ''uv_index'' = Some b \<and> b \<le> 10 \<and>
           (0 \<le> b \<longleftrightarrow> (case weather ''uv_index'' of None \<Rightarrow> True | Some u \<Rightarrow> - 1 < u))"
    using b(4) unfolding eq by (simp add: py_int_nonneg_iff split: option.split)
  show "\<exists>b. get_bar (factors r) ''precipitation'' = Some b \<and> b \<le> 10 \<and>
           (0 \<le> b \<longleftrightarrow> - 1 < get_or_zero weather ''precipitation'')"
    using b(5) unfolding eq by (simp add: py_int_nonneg_iff)
qed

text \<open>
  Claim C4, counterexample. With both readings empty, the precipitation factor does not have
  the label "Unknown" and no verdict: the absent precipitation was replaced by 0 before it
  was classified, and the factor is labelled "None" with verdict YES.
\<close>

theorem absent_precipitation_counterexample:
  "\<not> (get_label (factors (projr (evaluate_conditions written_order Map.empty Map.empty)))
         ''precipitation'' = Some ''Unknown'' \<and>
       get_verdict (factors (projr (evaluate_conditions written_order Map.empty Map.empty)))
         ''precipitation'' = None)"
  by (simp add: evaluate_conditions_empty get_label_def get_verdict_def)

text \<open>
  Claim C4, amended. Classifying an absent measurement against any table gives the label
  "Unknown" and no verdict, and so the water-temperature, wave-height, wind-speed and
  UV-index factors of an absent measurement have the label "Unknown" and no verdict. An
  absent precipitation and an absent weather code are replaced by 0 and give the labels
  "None" and "Clear sky" with verdict YES. For each of the six measurements, making it
  absent never changes an overall verdict of YES: if the verdict of two readings is YES, so
  is the verdict of the readings restricted to any sets of keys.
\<close>

theorem absent_measurement_neutral:
  "classify None thresholds = Inr (''Unknown'', None, 0) \<and>
   (\<exists>r r'. evaluate_conditions order marine weather = Inr r \<and>
      evaluate_conditions order (marine |` A) (weather |` B) = Inr r' \<and>
      (marine ''sea_surface_temp'' = None \<longrightarrow>
         get_label (factors r) ''water_temp'' = Some ''Unknown'' \<and>
         get_verdict (factors r) ''water_temp'' = None) \<and>
      (marine ''wave_height'' = None \<longrightarrow>
         get_label (factors r) ''wave_height'' = Some ''Unknown'' \<and>
         get_verdict (factors r) ''wave_height'' = None) \<and>
      (weather ''wind_speed'' = None \<longrightarrow>
         get_label (factors r) ''wind_speed'' = Some ''Unknown'' \<and>
         get_verdict (factors r) ''wind_speed'' = None) \<and>
      (weather ''uv_index'' = None \<longrightarrow>
         get_label (factors r) ''uv_index'' = Some ''Unknown'' \<and>
         get_verdict (factors r) ''uv_index'' = None) \<and>
      (weather ''precipitation'' = None \<longrightarrow>
         get_label (factors r) ''precipitation'' = Some ''None'' \<and>
         get_verdict (factors r) ''precipitation'' = Some YES) \<and>
      (weather ''weather_code'' = None \<longrightarrow>
         get_label (factors r) ''weather_code'' = Some ''Clear sky'' \<and>
         get_verdict (factors r) ''weather_code'' = Some YES) \<and>
      (evaluation.verdict r = YES \<longrightarrow> evaluation.verdict r' = YES))"
proof -
  let ?m = "marine |` A" and ?w = "weather |` B"
  obtain r where
    r: "evaluate_conditions order marine weather = Inr r"
    and wt: "get_verdict (factors r) ''water_temp'' = None"
    and wh: "get_verdict (factors r) ''wave_height'' =
       (case marine ''wave_height'' of None \<Rightarrow> None
        | Some h \<Rightarrow> Some (if h < 1 then YES else if h < 2 then MAYBE else NO))"
    and ws: "get_verdict (factors r) ''wind_speed'' =
       (case weather ''wind_speed'' of None \<Rightarrow> None
        | Some s \<Rightarrow> Some (if s < 20 then YES else if s < 40 then MAYBE else NO))"
    and uv: "get_verdict (factors r) ''uv_index'' = None"
    and pr: "get_verdict (factors r) ''precipitation'' =
       Some (if get_or_zero weather ''precipitation'' < 2 then YES
             else if get_or_zero weather ''precipitation'' < 5 then MAYBE else NO)"
    and wc: "get_verdict (factors r) ''weather_code'' =
       Some (if get_or_zero weather ''weather_code'' \<in> fst ` set DANGEROUS_WEATHER_CODES then NO
             else if get_or_zero weather ''weather_code'' \<in> fst ` set WARNING_WEATHER_CODES
             then MAYBE else YES)"
    and lwt: "marine ''sea_surface_temp'' = None \<longrightarrow>
        get_label (factors r) ''water_temp'' = Some ''Unknown''"
    and lwh: "marine ''wave_height'' = None \<longrightarrow>
        get_label (factors r) ''wave_height'' = Some ''Unknown''"
    and lws: "weather ''wind_speed'' = None \<longrightarrow>
        get_label (factors r) ''wind_speed'' = Some ''Unknown''"
    and luv: "weather ''uv_index'' = None \<longrightarrow>
        get_label (factors r) ''uv_index'' = Some ''Unknown''"
    and lpr: "get_or_zero weather ''precipitation'' = 0 \<longrightarrow>
       get_label (factors r) ''precipitation'' = Some ''None''"
    and lwc: "get_label (factors r) ''weather_code'' =
       Some (get_default WMO_WEATHER_DESCRIPTIONS (get_or_zero weather ''weather_code'') ''Unknown'')"
    by (rule evaluate_conditions_facts [of order marine weather])
  obtain r' where
    r': "evaluate_conditions order ?m ?w = Inr r'"
    and wh': "get_verdict (factors r') ''wave_height'' =
       (case ?m ''wave_height'' of None \<Rightarrow> None
        | Some h \<Rightarrow> Some (if h < 1 then YES else if h < 2 then MAYBE else NO))"
    and ws': "get_verdict (factors r') ''wind_speed'' =
       (case ?w ''wind_speed'' of None \<Rightarrow> None
        | Some s \<Rightarrow> Some (if s < 20 then YES else if s < 40 then MAYBE else NO))"
    and pr': "get_verdict (factors r') ''precipitation'' =
       Some (if get_or_zero ?w ''precipitation'' < 2 then YES
             else if get_or_zero ?w ''precipitation'' < 5 then MAYBE else NO)"
    and wc': "get_verdict (factors r') ''weather_code'' =
       Some (if get_or_zero ?w ''weather_code'' \<in> fst ` set DANGEROUS_WEATHER_CODES then NO
             else if get_or_zero ?w ''weather_code'' \<in> fst ` set WARNING_WEATHER_CODES
             then MAYBE else YES)"
    by (rule evaluate_conditions_facts [of order ?m ?w])
  have c: "classify None thresholds = Inr (''Unknown'', None, 0)"
    by (simp add: classify_def)
  have a1: "get_verdict (factors r) ''wave_height'' = None" if "marine ''wave_height'' = None"
    using that by (simp add: wh)
  have a2: "get_verdict (factors r) ''wind_speed'' = None" if "weather ''wind_speed'' = None"
    using that by (simp add: ws)
  have a3: "get_label (factors r) ''precipitation'' = Some ''None'' \<and>
         get_verdict (factors r) ''precipitation'' = Some YES"
    if "weather ''precipitation'' = None"
  proof -
    from that have "get_or_zero weather ''precipitation'' = 0" by (simp add: get_or_zero_def)
    then show ?thesis using lpr by (simp add: pr)
  qed
  have a4: "get_label (factors r) ''weather_code'' = Some ''Clear sky'' \<and>
         get_verdict (factors r) ''weather_code'' = Some YES"
    if "weather ''weather_code'' = None"
  proof -
    from that have "get_or_zero weather ''weather_code'' = 0" by (simp add: get_or_zero_def)
    then show ?thesis
      by (simp add: lwc wc get_default_def WMO_WEATHER_DESCRIPTIONS_def
          DANGEROUS_WEATHER_CODES_def WARNING_WEATHER_CODES_def)
  qed
  have n1: "get_verdict (factors r') ''wave_height'' = get_verdict (factors r) ''wave_height'' \<or>
      get_verdict (factors r') ''wave_height'' = None"
    by (simp add: wh wh' restrict_map_def)
  have n2: "get_verdict (factors r') ''wind_speed'' = get_verdict (factors r) ''wind_speed'' \<or>
      get_verdict (factors r') ''wind_speed'' = None"
    by (simp add: ws ws' restrict_map_def)
  have n3: "get_verdict (factors r') ''precipitation'' = get_verdict (factors r) ''precipitation'' \<or>
      get_verdict (factors r') ''precipitation'' = Some YES"
    by (simp add: pr pr' restrict_map_def get_or_zero_def)
  have n4: "get_verdict (factors r') ''weather_code'' = get_verdict (factors r) ''weather_code'' \<or>
      get_verdict (factors r') ''weather_code'' = Some YES"
    by (simp add: wc wc' restrict_map_def get_or_zero_def DANGEROUS_WEATHER_CODES_def
        WARNING_WEATHER_CODES_def)
  have neutral: "evaluation.verdict r' = YES" if "evaluation.verdict r = YES"
    using that n1 n2 n3 n4
    unfolding evaluate_conditions_aggregate [OF r] evaluate_conditions_aggregate [OF r']
      aggregate_YES_iff
    by auto
  show ?thesis
    by (rule conjI [OF c], rule exI [of _ r], rule exI [of _ r'],
        insert wt uv lwt lwh lws luv a1 a2 a3 a4 neutral, simp add: r r')
qed

theorem absent_measurement_neutral_witness:
  "(\<exists>r. evaluate_conditions written_order Map.empty Map.empty = Inr r \<and>
      get_label (factors r) ''water_temp'' = Some ''Unknown'' \<and>
      get_verdict (factors r) ''water_temp'' = None \<and>
      get_label (factors r) ''wave_height'' = Some ''Unknown'' \<and>
      get_verdict (factors r) ''wave_height'' = None \<and>
      get_label (factors r) ''wind_speed'' = Some ''Unknown'' \<and>
      get_verdict (factors r) ''wind_speed'' = None \<and>
      get_label (factors r) ''uv_index'' = Some ''Unknown'' \<and>
      get_verdict (factors r) ''uv_index'' = None \<and>
      get_label (factors r) ''precipitation'' = Some ''None'' \<and>
      get_verdict (factors r) ''precipitation'' = Some YES \<and>
      get_label (factors r) ''weather_code'' = Some ''Clear sky'' \<and>
      get_verdict (factors r) ''weather_code'' = Some YES) \<and>
   (\<exists>r r'. evaluate_conditions written_order [''wave_height'' \<mapsto> 0.3] [''wind_speed'' \<mapsto> 5.0] = Inr r \<and>
      evaluate_conditions written_order ([''wave_height'' \<mapsto> 0.3] |` {}) ([''wind_speed'' \<mapsto> 5.0] |` {})
        = Inr r' \<and>
      evaluation.verdict r = YES \<and> evaluation.verdict r' = YES)"
proof (rule conjI)
  have e: "Map.empty ''sea_surface_temp'' = (None :: rat option)"
    "Map.empty ''wave_height'' = (None :: rat option)"
    "Map.empty ''wind_speed'' = (None :: rat option)"
    "Map.empty ''uv_index'' = (None :: rat option)"
    "Map.empty ''precipitation'' = (None :: rat option)"
    "Map.empty ''weather_code'' = (None :: rat option)"
    by simp_all
  from absent_measurement_neutral [of "[]" written_order Map.empty Map.empty UNIV UNIV] e
  show "\<exists>r. evaluate_conditions written_order Map.empty Map.empty = Inr r \<and>
      get_label (factors r) ''water_temp'' = Some ''Unknown'' \<and>
      get_verdict (factors r) ''water_temp'' = None \<and>
      get_label (factors r) ''wave_height'' = Some ''Unknown'' \<and>
      get_verdict (factors r) ''wave_height'' = None \<and>
      get_label (factors r) ''wind_speed'' = Some ''Unknown'' \<and>
      get_verdict (factors r) ''wind_speed'' = None \<and>
      get_label (factors r) ''uv_index'' = Some ''Unknown'' \<and>
      get_verdict (factors r) ''uv_index'' = None \<and>
      get_label (factors r) ''precipitation'' = Some ''None'' \<and>
      get_verdict (factors r) ''precipitation'' = Some YES \<and>
      get_label (factors r) ''weather_code'' = Some ''Clear sky'' \<and>
      get_verdict (factors r) ''weather_code'' = Some YES"
    by blast
next
  let ?m = "[''wave_height'' \<mapsto> 0.3::rat]" and ?w = "[''wind_speed'' \<mapsto> 5.0::rat]"
  obtain r0 where
    r0: "evaluate_conditions written_order ?m ?w = Inr r0"
    and wh: "get_verdict (factors r0) ''wave_height'' =
       (case ?m ''wave_height'' of None \<Rightarrow> None
        | Some h \<Rightarrow> Some (if h < 1 then YES else if h < 2 then MAYBE else NO))"
    and ws: "get_verdict (factors r0) ''wind_speed'' =
       (case ?w ''wind_speed'' of None \<Rightarrow> None
        | Some s \<Rightarrow> Some (if s < 20 then YES else if s < 40 then MAYBE else NO))"
    and pr: "get_verdict (factors r0) ''precipitation'' =
       Some (if get_or_zero ?w ''precipitation'' < 2 then YES
             else if get_or_zero ?w ''precipitation'' < 5 then MAYBE else NO)"
    and wc: "get_verdict (factors r0) ''weather_code'' =
       Some (if get_or_zero ?w ''weather_code'' \<in> fst ` set DANGEROUS_WEATHER_CODES then NO
             else if get_or_zero ?w ''weather_code'' \<in> fst ` set WARNING_WEATHER_CODES
             then MAYBE else YES)"
    by (rule evaluate_conditions_facts [of written_order ?m ?w])
  have y: "evaluation.verdict r0 = YES"
    unfolding evaluate_conditions_aggregate [OF r0] aggregate_YES_iff
    by (simp add: wh ws pr wc get_or_zero_def DANGEROUS_WEATHER_CODES_def
        WARNING_WEATHER_CODES_def)
  from absent_measurement_neutral [of "[]" written_order ?m ?w "{}" "{}"] r0 y
  show "\<exists>r r'. evaluate_conditions written_order ?m ?w = Inr r \<and>
      evaluate_conditions written_order (?m |` {}) (?w |` {}) = Inr r' \<and>
      evaluation.verdict r = YES \<and> evaluation.verdict r' = YES"
    by auto
qed

lemma issues_loop_described:
  "issues_loop fs order acc = acc @ described order fs [MAYBE]"
  by (induction order arbitrary: acc) (simp_all add: described_def split: option.split)

lemma dangers_loop_described:
  "dangers_loop fs order acc = acc @ described order fs [NO, MAYBE]"
  by (induction order arbitrary: acc) (auto simp: described_def split: option.split)

lemma summary_caution_example:
  "map_sum id summary (evaluate_conditions written_order [''wave_height'' \<mapsto> 1.6] Map.empty)
     = Inr ''Swim with caution: rough waves.''"
  by code_simp

lemma summary_closed_example:
  "map_sum id summary
     (evaluate_conditions written_order [''wave_height'' \<mapsto> 1.6]
        [''wind_speed'' \<mapsto> 55.0, ''precipitation'' \<mapsto> 3.0, ''weather_code'' \<mapsto> 95])
     = Inr ''Beach closed: rough waves, extreme wind.''"
  by code_simp

lemma evaluate_conditions_rough:
  "evaluate_conditions written_order [''wave_height'' \<mapsto> 1.6] Map.empty =
    Inr \<lparr>evaluation.verdict = MAYBE,
         factors =
           [(''water_temp'',
             \<lparr>value = None, unit = ''C'', label = ''Unknown'', factor.verdict = None, bar = 0\<rparr>),
            (''wave_height'',
             \<lparr>value = Some 1.6, unit = ''m'', label = ''Rough'', factor.verdict = Some MAYBE, bar = 7\<rparr>),
            (''wind_speed'',
             \<lparr>value = None, unit = ''km/h'', label = ''Unknown'', factor.verdict = None, bar = 0\<rparr>),
            (''uv_index'',
             \<lparr>value = None, unit = '''', label = ''Unknown'', factor.verdict = None, bar = 0\<rparr>),
            (''precipitation'',
             \<lparr>value = Some 0, unit = ''mm'', label = ''None'', factor.verdict = Some YES, bar = 0\<rparr>),
            (''weather_code'',
             \<lparr>value = Some 0, unit = '''', label = ''Clear sky'', factor.verdict = Some YES, bar = 0\<rparr>)],
         tips = [''Rough waves. Experienced swimmers only.''],
         summary = ''Swim with caution: rough waves.''\<rparr>"
  by code_simp


text \<open>
  Claim C6, counterexample. With a wave height of 1.6 and nothing else, the overall verdict
  is MAYBE and the only phrase is "rough waves"; the summary is not "Swim with caution: "
  followed by the joined phrases: it is "Swim with caution: rough waves." with a closing
  full stop.
\<close>

theorem summary_full_stop_counterexample:
  "summary (projr (evaluate_conditions written_order [''wave_height'' \<mapsto> 1.6] Map.empty)) \<noteq>
     ''Swim with caution: '' @
     join '', ''
       (described written_order
          (factors (projr (evaluate_conditions written_order [''wave_height'' \<mapsto> 1.6] Map.empty)))
          [MAYBE])"
proof -
  have "described written_order
          (factors (projr (evaluate_conditions written_order [''wave_height'' \<mapsto> 1.6] Map.empty)))
          [MAYBE] = [''rough waves'']"
    unfolding evaluate_conditions_rough by code_simp
  then show ?thesis
    unfolding evaluate_conditions_rough by simp
qed

text \<open>
  Claim C6, amended. The summary is "Beach is open. Go swim!" for YES. For MAYBE it is
  "Swim with caution: " followed by the phrases "label-lowercased factor-name" of the
  safety factors whose verdict is MAYBE, joined by ", ", and by a closing full stop; or
  "Conditions are mixed. Swim with caution." when there is no such factor. For NO it is
  "Beach closed: " followed by the first two phrases of the safety factors whose verdict
  is NO or MAYBE, joined the same way, and by a closing full stop; or "Not safe to swim."
  when there is none. The factor names are waves, wind, rain and weather. The evaluator's
  summary is this sentence for its verdict and its factors.
\<close>

theorem summary_sentence:
  "generate_summary order YES fs = ''Beach is open. Go swim!'' \<and>
   generate_summary order MAYBE fs =
     (if described order fs [MAYBE] = [] then ''Conditions are mixed. Swim with caution.''
      else ''Swim with caution: '' @ join '', '' (described order fs [MAYBE]) @ ''.'') \<and>
   generate_summary order NO fs =
     (if described order fs [NO, MAYBE] = [] then ''Not safe to swim.''
      else ''Beach closed: '' @ join '', '' (take 2 (described order fs [NO, MAYBE])) @ ''.'') \<and>
   factor_name ''wave_height'' = ''waves'' \<and>
   factor_name ''wind_speed'' = ''wind'' \<and>
   factor_name ''precipitation'' = ''rain'' \<and>
   factor_name ''weather_code'' = ''weather'' \<and>
   (\<exists>r. evaluate_conditions order marine weather = Inr r \<and>
      summary r = generate_summary order (evaluation.verdict r) (factors r)) \<and>
   (\<exists>r. evaluate_conditions written_order [''wave_height'' \<mapsto> 1.6] Map.empty = Inr r \<and>
      summary r = ''Swim with caution: rough waves.'') \<and>
   (\<exists>r. evaluate_conditions written_order [''wave_height'' \<mapsto> 1.6]
          [''wind_speed'' \<mapsto> 55.0, ''precipitation'' \<mapsto> 3.0, ''weather_code'' \<mapsto> 95] = Inr r \<and>
      summary r = ''Beach closed: rough waves, extreme wind.'')"
proof (intro conjI)
  show "generate_summary order YES fs = ''Beach is open. Go swim!''"
    by (simp add: generate_summary_def)
  show "generate_summary order MAYBE fs =
     (if described order fs [MAYBE] = [] then ''Conditions are mixed. Swim with caution.''
      else ''Swim with caution: '' @ join '', '' (described order fs [MAYBE]) @ ''.'')"
    by (simp add: generate_summary_def issues_loop_described)
  show "generate_summary order NO fs =
     (if described order fs [NO, MAYBE] = [] then ''Not safe to swim.''
      else ''Beach closed: '' @ join '', '' (take 2 (described order fs [NO, MAYBE])) @ ''.'')"
    by (simp add: generate_summary_def dangers_loop_described)
  show "factor_name ''wave_height'' = ''waves''" by (simp add: factor_name_def get_default_def)
  show "factor_name ''wind_speed'' = ''wind''" by (simp add: factor_name_def get_default_def)
  show "factor_name ''precipitation'' = ''rain''" by (simp add: factor_name_def get_default_def)
  show "factor_name ''weather_code'' = ''weather''" by (simp add: factor_name_def get_default_def)
  show "\<exists>r. evaluate_conditions order marine weather = Inr r \<and>
      summary r = generate_summary order (evaluation.verdict r) (factors r)"
  proof -
    obtain r where "evaluate_conditions order marine weather = Inr r"
      "summary r = generate_summary order (evaluation.verdict r) (factors r)"
      by (rule evaluate_conditions_facts [of order marine weather])
    then show ?thesis by blast
  qed
  show "\<exists>r. evaluate_conditions written_order [''wave_height'' \<mapsto> 1.6] Map.empty = Inr r \<and>
      summary r = ''Swim with caution: rough waves.''"
    using summary_caution_example
    by (cases "evaluate_conditions written_order [''wave_height'' \<mapsto> 1.6] Map.empty") simp_all
  show "\<exists>r. evaluate_conditions written_order [''wave_height'' \<mapsto> 1.6]
          [''wind_speed'' \<mapsto> 55.0, ''precipitation'' \<mapsto> 3.0, ''weather_code'' \<mapsto> 95] = Inr r \<and>
      summary r = ''Beach closed: rough waves, extreme wind.''"
    using summary_closed_example
    by (cases "evaluate_conditions written_order [''wave_height'' \<mapsto> 1.6]
          [''wind_speed'' \<mapsto> 55.0, ''precipitation'' \<mapsto> 3.0, ''weather_code'' \<mapsto> 95]") simp_all
qed

lemma described_nonempty:
  assumes "key \<in> set order" and "get_verdict fs key = Some v" and "v \<in> set vs"
  shows "described order fs vs \<noteq> []"
proof -
  from assms(2) obtain f where f: "map_of fs key = Some f" "factor.verdict f = Some v"
    by (auto simp: get_verdict_def split: option.splits)
  with assms(1,3) show ?thesis
    by (auto simp: described_def intro!: bexI [of _ key])
qed

lemma aggregate_MAYBE: "aggregate vs = MAYBE \<Longrightarrow> Some MAYBE \<in> set vs"
  using count_list_0_iff [of vs "Some MAYBE"] by (auto simp: aggregate_def split: if_splits)

text \<open>
  Claim C8. For readings within the double range: whenever the evaluator's overall verdict
  is MAYBE, some safety factor has the
  verdict MAYBE when the summary is generated; hence, the loop running over all the safety
  factors, the evaluator never returns the summary "Conditions are mixed. Swim with
  caution.".
\<close>

theorem mixed_fallback_unreachable:
  assumes "set order = SAFETY_FACTORS" and "readings_in_range marine weather"
  shows "\<exists>r. evaluate_conditions order marine weather = Inr r \<and>
     (evaluation.verdict r = MAYBE \<longrightarrow>
        (\<exists>key \<in> SAFETY_FACTORS. get_verdict (factors r) key = Some MAYBE)) \<and>
     summary r \<noteq> ''Conditions are mixed. Swim with caution.''"
proof -
  obtain r where
    r: "evaluate_conditions order marine weather = Inr r"
    and s: "summary r = generate_summary order (evaluation.verdict r) (factors r)"
    by (rule evaluate_conditions_facts [of order marine weather])
  note agg = evaluate_conditions_aggregate [OF r]
  have ex: "\<exists>key \<in> SAFETY_FACTORS. get_verdict (factors r) key = Some MAYBE"
    if "evaluation.verdict r = MAYBE"
  proof -
    from that agg have "Some MAYBE \<in> set (map (get_verdict (factors r))
         [''wave_height'', ''wind_speed'', ''precipitation'', ''weather_code''])"
      using aggregate_MAYBE by metis
    then show ?thesis by (auto simp: SAFETY_FACTORS_def)
  qed
  have "summary r \<noteq> ''Conditions are mixed. Swim with caution.''"
  proof (cases "evaluation.verdict r")
    case YES
    then show ?thesis by (simp add: s generate_summary_def)
  next
    case MAYBE
    with ex obtain key where "key \<in> set order" "get_verdict (factors r) key = Some MAYBE"
      using assms(1) by blast
    then have "described order (factors r) [MAYBE] \<noteq> []"
      by (rule described_nonempty) simp
    with MAYBE show ?thesis
      by (simp add: s generate_summary_def issues_loop_described Let_def)
  next
    case NO
    then show ?thesis by (simp add: s generate_summary_def Let_def)
  qed
  with r ex show ?thesis by blast
qed

theorem mixed_fallback_unreachable_witness:
  "set written_order = SAFETY_FACTORS \<and>
   readings_in_range [''wave_height'' \<mapsto> 1.6] Map.empty \<and>
   (\<exists>r. evaluate_conditions written_order [''wave_height'' \<mapsto> 1.6] Map.empty = Inr r \<and>
      evaluation.verdict r = MAYBE \<and>
      get_verdict (factors r) ''wave_height'' = Some MAYBE \<and>
      summary r \<noteq> ''Conditions are mixed. Swim with caution.'')"
proof -
  let ?m = "[''wave_height'' \<mapsto> 1.6::rat]"
  have o: "set written_order = SAFETY_FACTORS"
    by (simp add: written_order_def SAFETY_FACTORS_def)
  obtain r0 where
    r0: "evaluate_conditions written_order ?m Map.empty = Inr r0"
    and wh: "get_verdict (factors r0) ''wave_height'' =
       (case ?m ''wave_height'' of None \<Rightarrow> None
        | Some h \<Rightarrow> Some (if h < 1 then YES else if h < 2 then MAYBE else NO))"
    and ws: "get_verdict (factors r0) ''wind_speed'' =
       (case Map.empty ''wind_speed'' of None \<Rightarrow> None
        | Some s \<Rightarrow> Some (if s < (20::rat) then YES else if s < 40 then MAYBE else NO))"
    and pr: "get_verdict (factors r0) ''precipitation'' =
       Some (if get_or_zero Map.empty ''precipitation'' < 2 then YES
             else if get_or_zero Map.empty ''precipitation'' < 5 then MAYBE else NO)"
    and wc: "get_verdict (factors r0) ''weather_code'' =
       Some (if get_or_zero Map.empty ''weather_code'' \<in> fst ` set DANGEROUS_WEATHER_CODES then NO
             else if get_or_zero Map.empty ''weather_code'' \<in> fst ` set WARNING_WEATHER_CODES
             then MAYBE else YES)"
    by (rule evaluate_conditions_facts [of written_order ?m Map.empty])
  have v: "evaluation.verdict r0 = MAYBE"
    unfolding evaluate_conditions_aggregate [OF r0]
    by (simp add: aggregate_def wh ws pr wc get_or_zero_def DANGEROUS_WEATHER_CODES_def
        WARNING_WEATHER_CODES_def)
  have m: "get_verdict (factors r0) ''wave_height'' = Some MAYBE"
    by (simp add: wh)
  have g: "readings_in_range ?m Map.empty"
    by (simp add: readings_in_range_def present_in_range_def in_double_range_small)
  from mixed_fallback_unreachable [OF o g] r0 v m o g
  show ?thesis by auto
qed

end
